theory Spec2Isabelle
  imports Complex_Main
begin

section \<open>JavaScript values used by the services\<close>

text \<open>
  Strings are lists of code units; \<open>s.length\<close> is \<open>length s\<close> and the falsy string is
  the empty one. A thrown value is an object with an optional \<open>message\<close> and an optional
  \<open>code\<close>: \<open>new Error(m)\<close> has the message \<open>m\<close> and no code.
\<close>

datatype exn = Exn (exn_message: "string option") (exn_code: "string option")

definition Error :: "string \<Rightarrow> exn" where
  "Error m = Exn (Some m) None"

text \<open>A number inside a template literal: \<open>`${Date.now()}`\<close> prints a natural number in decimal.\<close>

fun decimal :: "nat \<Rightarrow> string" where
  "decimal n =
     (if n < 10 then [''0123456789'' ! n]
      else decimal (n div 10) @ [''0123456789'' ! (n mod 10)])"

declare decimal.simps [simp del]

text \<open>\<open>a || b\<close> on optional strings: \<open>undefined\<close> and \<open>''\<close> are falsy.\<close>

definition truthy :: "string option \<Rightarrow> bool" where
  "truthy v = (case v of None \<Rightarrow> False | Some s \<Rightarrow> s \<noteq> [])"

definition js_or :: "string option \<Rightarrow> string option \<Rightarrow> string option" where
  "js_or a b = (if truthy a then a else b)"

text \<open>\<open>String.prototype.includes\<close>: the second string occurs in the first.\<close>

fun starts_with :: "string \<Rightarrow> string \<Rightarrow> bool" where
  "starts_with s [] = True"
| "starts_with [] (c # cs) = False"
| "starts_with (d # ds) (c # cs) = (d = c \<and> starts_with ds cs)"

fun str_includes :: "string \<Rightarrow> string \<Rightarrow> bool" where
  "str_includes [] sub = (sub = [])"
| "str_includes (d # ds) sub = (starts_with (d # ds) sub \<or> str_includes ds sub)"


section \<open>The mock authentication store (\<open>services/mockAuth.ts\<close>)\<close>

text \<open>
  A user object of the store. The optional fields of the JavaScript object are options:
  \<open>None\<close> is a field the object does not have. The demo user has a \<open>panId\<close> and a
  \<open>dateOfBirth\<close> and no \<open>createdAt\<close>; a registered user has a \<open>createdAt\<close> only.
\<close>

record mock_user =
  u_id :: string
  u_name :: string
  u_email :: string
  u_password :: "string option"
  u_profileCompleted :: bool
  u_panId :: "string option"
  u_dateOfBirth :: "string option"
  u_createdAt :: "string option"

definition DEMO_USER :: mock_user where
  "DEMO_USER =
     \<lparr> u_id = ''demo-user-id'',
       u_name = '''',
       u_email = ''demo@budgettracker.com'',
       u_password = Some ''demo1234'',
       u_profileCompleted = False,
       u_panId = Some ''DEMO1234Z'',
       u_dateOfBirth = Some ''1990-01-01'',
       u_createdAt = None \<rparr>"

text \<open>
  \<open>private users: Record<string, any>\<close>, keyed by email and seeded with the demo user.
  (Keys are taken to be own properties: an email equal to the name of a property of
  \<open>Object.prototype\<close> is outside the model.)
\<close>

type_synonym users = "string \<rightharpoonup> mock_user"

definition initial_users :: users where
  "initial_users = [u_email DEMO_USER \<mapsto> DEMO_USER]"

record mock_reply =
  mr_success :: bool
  mr_token :: string
  mr_user :: mock_user

text \<open>
  The clock of one call: \<open>Date.now()\<close> in milliseconds and \<open>new Date().toISOString()\<close>.
  The readings of one call are taken within the same millisecond.
\<close>

record clock =
  now :: nat
  iso :: string

definition generateToken :: "clock \<Rightarrow> string \<Rightarrow> string" where
  "generateToken clk userId = ''mock-token-'' @ userId @ ''-'' @ decimal (now clk)"

text \<open>
  \<open>const { password: _, ...userData } = user\<close>: every field of the user but the password.
\<close>

definition without_password :: "mock_user \<Rightarrow> mock_user" where
  "without_password u = u\<lparr>u_password := None\<rparr>"

text \<open>\<open>register\<close> returns the reply or throws, and the new user map.\<close>

definition mock_register ::
  "clock \<Rightarrow> users \<Rightarrow> string \<Rightarrow> string \<Rightarrow> string \<Rightarrow> (exn + mock_reply) \<times> users" where
  "mock_register clk us name email password =
     (if name = [] \<or> email = [] \<or> password = [] then
        (Inl (Error ''All fields are required''), us)
      else if length password < 8 then
        (Inl (Error ''Password must be at least 8 characters''), us)
      else if us email \<noteq> None then
        (Inl (Error ''User already exists with this email''), us)
      else
        let newUser =
              \<lparr> u_id = ''user-'' @ decimal (now clk),
                u_name = name,
                u_email = email,
                u_password = Some password,
                u_profileCompleted = False,
                u_panId = None,
                u_dateOfBirth = None,
                u_createdAt = Some (iso clk) \<rparr>
        in (Inr \<lparr> mr_success = True,
                   mr_token = generateToken clk (u_id newUser),
                   mr_user = without_password newUser \<rparr>,
            us(email \<mapsto> newUser)))"

definition mock_login :: "clock \<Rightarrow> users \<Rightarrow> string \<Rightarrow> string \<Rightarrow> exn + mock_reply" where
  "mock_login clk us email password =
     (if email = [] \<or> password = [] then Inl (Error ''Email and password are required'')
      else case us email of
        None \<Rightarrow> Inl (Error ''Invalid credentials'')
      | Some user \<Rightarrow>
          if u_password user \<noteq> Some password then Inl (Error ''Invalid credentials'')
          else Inr \<lparr> mr_success = True,
                     mr_token = generateToken clk (u_id user),
                     mr_user = without_password user \<rparr>)"


section \<open>Browser storage\<close>

text \<open>
  The user object of the authentication service (\<open>AuthUser\<close>) and the profile it caches.
\<close>

record auth_user =
  au_id :: string
  au_email :: string
  au_name :: "string option"
  au_full_name :: "string option"

record cached_profile =
  cp_name :: "string option"
  cp_email :: string
  cp_dateOfBirth :: string
  cp_panId :: string

datatype txn_type = Income | Expense

record transaction =
  t__id :: string
  t_type :: txn_type
  t_amount :: real
  t_category :: string
  t_description :: string
  t_date :: string
  t_createdAt :: "string option"

text \<open>
  A stored category: the default ones have \<open>_id\<close>, \<open>name\<close>, \<open>type\<close>, \<open>color\<close> and
  \<open>icon\<close>; a created one has the fields of the caller's object, a fresh \<open>_id\<close> and a
  \<open>createdAt\<close>.
\<close>

record category =
  c__id :: string
  c_id :: "string option"
  c_name :: string
  c_type :: txn_type
  c_color :: "string option"
  c_icon :: "string option"
  c_budget :: "real option"
  c_createdAt :: "string option"

text \<open>
  \<open>localStorage\<close> and \<open>sessionStorage\<close> map keys to strings. A string written by
  \<open>JSON.stringify\<close> is kept as the value it encodes, so that \<open>JSON.parse\<close> gives it
  back; \<open>Text\<close> is any other string.
\<close>

datatype stored =
    Text string
  | UserData auth_user
  | UserProfile cached_profile
  | TransactionList "transaction list"
  | CategoryList "category list"

type_synonym storage = "string \<rightharpoonup> stored"

text \<open>\<open>!localStorage.getItem(k)\<close>: the key is absent, or holds the empty string.\<close>

definition falsy :: "stored option \<Rightarrow> bool" where
  "falsy v = (v = None \<or> v = Some (Text []))"

text \<open>
  \<open>JSON.parse\<close> of a stored string that is then used as a list of transactions (of
  categories). The source does not guard against another content: the parse, or the first
  array method called on the result, throws.
\<close>

definition not_a_list :: exn where
  "not_a_list = Exn (Some ''stored value is not a list'') None"

definition parse_transactions :: "stored option \<Rightarrow> exn + transaction list" where
  "parse_transactions v = (case v of Some (TransactionList ts) \<Rightarrow> Inr ts | _ \<Rightarrow> Inl not_a_list)"

definition parse_categories :: "stored option \<Rightarrow> exn + category list" where
  "parse_categories v = (case v of Some (CategoryList cs) \<Rightarrow> Inr cs | _ \<Rightarrow> Inl not_a_list)"

fun removeItems :: "string list \<Rightarrow> storage \<Rightarrow> storage" where
  "removeItems [] ls = ls"
| "removeItems (k # ks) ls = removeItems ks (ls(k := None))"


section \<open>The host: dates (\<open>Date\<close>) and the case of letters\<close>

text \<open>
  A \<open>Date\<close> is its time value: milliseconds since the epoch, or \<open>None\<close> for an invalid
  date (\<open>NaN\<close>). The host supplies what the language leaves to it or takes from tables
  of its own: the conversion of a local time to UTC, the parsing of a date string, and
  \<open>String.prototype.toLowerCase\<close>, which lowers every cased letter of Unicode. The
  three are parameters of the functions that use them: nothing is assumed of them.
\<close>

record host =
  UTC :: "int \<Rightarrow> int"
  Date_parse :: "string \<Rightarrow> int option"
  toLowerCase :: "string \<Rightarrow> string"

definition msPerDay :: int where
  "msPerDay = 86400000"

text \<open>The day number of the civil date \<open>y\<close>-\<open>m\<close>-\<open>d\<close> (\<open>m\<close> from 1 to 12), day 0 being 1970-01-01.\<close>

definition days_from_civil :: "int \<Rightarrow> int \<Rightarrow> int \<Rightarrow> int" where
  "days_from_civil y m d =
     (let y1 = (if m \<le> 2 then y - 1 else y);
          era = y1 div 400;
          yoe = y1 - era * 400;
          mp = (m + 9) mod 12;
          doy = (153 * mp + 2) div 5 + d - 1;
          doe = yoe * 365 + yoe div 4 - yoe div 100 + doy
      in era * 146097 + doe - 719468)"

text \<open>
  \<open>MakeDay(year, month, date)\<close> with a month index from 0: months beyond the year carry
  into the year, and the day counts from the first of the month, so that day 0 is the last
  day of the month before.
\<close>

definition MakeDay :: "int \<Rightarrow> int \<Rightarrow> int \<Rightarrow> int" where
  "MakeDay year month dt =
     days_from_civil (year + month div 12) (month mod 12 + 1) 1 + dt - 1"

definition TimeClip :: "int \<Rightarrow> int option" where
  "TimeClip t = (if \<bar>t\<bar> \<le> 8640000000000000 then Some t else None)"

text \<open>
  \<open>new Date(year, monthIndex, day)\<close>: midnight of that local day; a year from 0 to 99 is
  taken in the 1900s.
\<close>

definition new_Date :: "host \<Rightarrow> int \<Rightarrow> int \<Rightarrow> int \<Rightarrow> int option" where
  "new_Date h year monthIndex day =
     (let yr = (if 0 \<le> year \<and> year \<le> 99 then 1900 + year else year)
      in TimeClip (UTC h (MakeDay yr monthIndex day * msPerDay)))"

text \<open>\<open>a >= b\<close> and \<open>a <= b\<close> on dates compare the time values; with \<open>NaN\<close> both are false.\<close>

definition date_ge :: "int option \<Rightarrow> int option \<Rightarrow> bool" where
  "date_ge a b = (case a of None \<Rightarrow> False | Some x \<Rightarrow> (case b of None \<Rightarrow> False | Some y \<Rightarrow> y \<le> x))"

definition date_le :: "int option \<Rightarrow> int option \<Rightarrow> bool" where
  "date_le a b = (case a of None \<Rightarrow> False | Some x \<Rightarrow> (case b of None \<Rightarrow> False | Some y \<Rightarrow> x \<le> y))"


section \<open>Transactions and categories (\<open>services/api.ts\<close>)\<close>

text \<open>
  \<open>const USE_MOCK_AUTH = true\<close>. Each service function answers from \<open>localStorage\<close>
  under this flag and talks to the hosted backend otherwise; that other branch is the
  parameter \<open>backend\<close> of the functions below.
\<close>

definition USE_MOCK_AUTH :: bool where
  "USE_MOCK_AUTH = True"

text \<open>A reply \<open>{ success: true, data }\<close> or \<open>{ success: false, error }\<close>.\<close>

datatype 'a api_reply = Success 'a | Failure string

record summary =
  income :: real
  expense :: real
  balance :: real

record monthly =
  transactions :: "transaction list"
  summary :: summary

record totals =
  acc_income :: real
  acc_expense :: real

definition add_to_totals :: "transaction \<Rightarrow> totals \<Rightarrow> totals" where
  "add_to_totals cur tot =
     (if t_type cur = Income then tot\<lparr>acc_income := acc_income tot + t_amount cur\<rparr>
      else tot\<lparr>acc_expense := acc_expense tot + t_amount cur\<rparr>)"

definition in_range :: "host \<Rightarrow> int option \<Rightarrow> int option \<Rightarrow> transaction \<Rightarrow> bool" where
  "in_range h startDate endDate t =
     (let date = Date_parse h (t_date t) in date_ge date startDate \<and> date_le date endDate)"

definition getMonthlyTransactions ::
  "(storage \<Rightarrow> int \<Rightarrow> int \<Rightarrow> exn + monthly api_reply) \<Rightarrow> host \<Rightarrow> storage \<Rightarrow> int \<Rightarrow> int
     \<Rightarrow> exn + monthly api_reply" where
  "getMonthlyTransactions backend h ls year month =
     (if USE_MOCK_AUTH then
        let storedTransactions = ls ''transactions'' in
        if falsy storedTransactions then
          Inr (Success \<lparr> transactions = [],
                         summary = \<lparr> income = 0, expense = 0, balance = 0 \<rparr> \<rparr>)
        else
          case parse_transactions storedTransactions of
            Inl e \<Rightarrow> Inl e
          | Inr txns \<Rightarrow>
              let startDate = new_Date h year (month - 1) 1;
                  endDate = new_Date h year month 0;
                  filteredTransactions = filter (in_range h startDate endDate) txns;
                  tot = fold add_to_totals filteredTransactions
                          \<lparr> acc_income = 0, acc_expense = 0 \<rparr>
              in Inr (Success \<lparr> transactions = filteredTransactions,
                                summary = \<lparr> income = acc_income tot,
                                            expense = acc_expense tot,
                                            balance = acc_income tot - acc_expense tot \<rparr> \<rparr>)
      else backend ls year month)"

text \<open>The object given to \<open>createCategory\<close>.\<close>

record category_input =
  ci_id :: "string option"
  ci_name :: string
  ci_type :: txn_type
  ci_color :: "string option"
  ci_icon :: "string option"
  ci_budget :: "real option"

definition same_category :: "host \<Rightarrow> category_input \<Rightarrow> category \<Rightarrow> bool" where
  "same_category h new c =
     (toLowerCase h (c_name c) = toLowerCase h (ci_name new) \<and> c_type c = ci_type new)"

definition createCategory ::
  "(storage \<Rightarrow> category_input \<Rightarrow> (exn + category api_reply) \<times> storage) \<Rightarrow> host \<Rightarrow> clock
     \<Rightarrow> storage \<Rightarrow> category_input \<Rightarrow> (exn + category api_reply) \<times> storage" where
  "createCategory backend h clk ls new =
     (if USE_MOCK_AUTH then
        let storedCategories = ls ''categories'' in
        case (if falsy storedCategories then Inr [] else parse_categories storedCategories) of
          Inl e \<Rightarrow> (Inl e, ls)
        | Inr categories \<Rightarrow>
            (case find (same_category h new) categories of
               Some existingCategory \<Rightarrow> (Inr (Failure ''Category already exists''), ls)
             | None \<Rightarrow>
                 let newCategory =
                       \<lparr> c__id = ''cat-'' @ decimal (now clk),
                         c_id = ci_id new,
                         c_name = ci_name new,
                         c_type = ci_type new,
                         c_color = ci_color new,
                         c_icon = ci_icon new,
                         c_budget = ci_budget new,
                         c_createdAt = Some (iso clk) \<rparr>
                 in (Inr (Success newCategory),
                     ls(''categories'' \<mapsto> CategoryList (categories @ [newCategory]))))
      else backend ls new)"

definition deleteCategory ::
  "(storage \<Rightarrow> string \<Rightarrow> (exn + unit api_reply) \<times> storage) \<Rightarrow> storage \<Rightarrow> string
     \<Rightarrow> (exn + unit api_reply) \<times> storage" where
  "deleteCategory backend ls ident =
     (if USE_MOCK_AUTH then
        let storedCategories = ls ''categories'' in
        if falsy storedCategories then (Inr (Failure ''No categories found''), ls)
        else
          case parse_categories storedCategories of
            Inl e \<Rightarrow> (Inl e, ls)
          | Inr categories \<Rightarrow>
              (case find (\<lambda>c. c__id c = ident) categories of
                 None \<Rightarrow> (Inr (Failure ''Category not found''), ls)
               | Some categoryToDelete \<Rightarrow>
                   let filteredCategories = filter (\<lambda>c. c__id c \<noteq> ident) categories;
                       ls1 = ls(''categories'' \<mapsto> CategoryList filteredCategories);
                       storedTransactions = ls1 ''transactions''
                   in if falsy storedTransactions then (Inr (Success ()), ls1)
                      else
                        case parse_transactions storedTransactions of
                          Inl e \<Rightarrow> (Inl e, ls1)
                        | Inr txns \<Rightarrow>
                            let updatedTransactions =
                                  filter (\<lambda>t. t_category t \<noteq> c_name categoryToDelete) txns
                            in (Inr (Success ()),
                                ls1(''transactions'' \<mapsto> TransactionList updatedTransactions)))
      else backend ls ident)"


section \<open>The hosted backend as seen by the client\<close>

text \<open>
  A call to the hosted backend is awaited: the promise is rejected (the \<open>await\<close> throws)
  or resolves to an object \<open>{ data, error }\<close>. What the backend answers is not decided by
  the client, so the answers are parameters: one function per call the services make, the
  calls of a retry loop numbered by the attempt.
\<close>

datatype 'a outcome = Rejects exn | Resolves 'a

record 'a response =
  resp_data :: 'a
  resp_error :: "exn option"

record supa_user =
  su_id :: string
  su_email :: string
  su_meta_name :: "string option"
  su_meta_full_name :: "string option"

record supa_session =
  access_token :: string

record auth_data =
  ad_user :: "supa_user option"
  ad_session :: "supa_session option"

record profile_row =
  pr_full_name :: "string option"
  pr_name :: "string option"

record supabase =
  signInWithPassword :: "string \<Rightarrow> string \<Rightarrow> auth_data response outcome"
  signUp :: "nat \<Rightarrow> string \<Rightarrow> string \<Rightarrow> string \<Rightarrow> auth_data response outcome"
  signOut :: "exn option outcome"
  profile_by_id :: "string \<Rightarrow> profile_row option response outcome"
  profile_by_email :: "string \<Rightarrow> profile_row option response outcome"
  profile_check :: "nat \<Rightarrow> string \<Rightarrow> profile_row option response outcome"

text \<open>
  The calls a service function makes, in order: to the mock store, or to the hosted
  backend (its authentication API, a remote procedure, a query on a table).
\<close>

datatype call =
    Mock_login
  | Auth_signInWithPassword
  | Auth_signUp
  | Auth_signOut
  | Rpc string
  | Select string

definition remote_call :: "call \<Rightarrow> bool" where
  "remote_call c = (c \<noteq> Mock_login)"

text \<open>
  What the client can change: the two browser stores, the user map of the mock store, and
  the log of the calls made so far.
\<close>

record world =
  localStorage :: storage
  sessionStorage :: storage
  mockUsers :: users
  calls :: "call list"

definition invoke :: "call \<Rightarrow> world \<Rightarrow> world" where
  "invoke c w = w\<lparr>calls := calls w @ [c]\<rparr>"

definition setItem :: "string \<Rightarrow> stored \<Rightarrow> world \<Rightarrow> world" where
  "setItem k v w = w\<lparr>localStorage := (localStorage w)(k \<mapsto> v)\<rparr>"

definition session_setItem :: "string \<Rightarrow> stored \<Rightarrow> world \<Rightarrow> world" where
  "session_setItem k v w = w\<lparr>sessionStorage := (sessionStorage w)(k \<mapsto> v)\<rparr>"


section \<open>The authentication service (\<open>AuthService\<close>)\<close>

record AuthResponse =
  success :: bool
  user :: "auth_user option"
  token :: "string option"
  error :: "string option"
  needsEmailConfirmation :: "bool option"

text \<open>The result \<open>{ success: false, error }\<close>.\<close>

definition failed :: "string option \<Rightarrow> AuthResponse" where
  "failed msg =
     \<lparr> success = False, user = None, token = None, error = msg,
       needsEmailConfirmation = None \<rparr>"

text \<open>\<open>x || 'text'\<close> with a literal on the right.\<close>

definition or_else :: "string option \<Rightarrow> string \<Rightarrow> string" where
  "or_else a d = (case a of None \<Rightarrow> d | Some s \<Rightarrow> if s = [] then d else s)"

text \<open>\<open>profile?.field\<close> on a row that may be missing.\<close>

definition opt_field :: "('a \<Rightarrow> string option) \<Rightarrow> 'a option \<Rightarrow> string option" where
  "opt_field f p = (case p of None \<Rightarrow> None | Some r \<Rightarrow> f r)"

definition saveUserCredentials :: "auth_user \<Rightarrow> string \<Rightarrow> world \<Rightarrow> world" where
  "saveUserCredentials usr tok w =
     setItem ''userProfile''
       (UserProfile \<lparr> cp_name = js_or (au_name usr) (au_full_name usr),
                      cp_email = au_email usr,
                      cp_dateOfBirth = '''',
                      cp_panId = '''' \<rparr>)
       (setItem ''userData'' (UserData usr) (setItem ''token'' (Text tok) w))"

text \<open>The second \<open>try\<close> block of \<open>login\<close>: the sign-in at the hosted backend.\<close>

definition signIn_try ::
  "supabase \<Rightarrow> world \<Rightarrow> string \<Rightarrow> string \<Rightarrow> (exn + AuthResponse) \<times> world" where
  "signIn_try sb w email password =
     (let w1 = invoke Auth_signInWithPassword w in
      case signInWithPassword sb email password of
        Rejects e \<Rightarrow> (Inl e, w1)
      | Resolves r \<Rightarrow>
          (case resp_error r of
             Some e \<Rightarrow> (Inl e, w1)
           | None \<Rightarrow>
               (case ad_user (resp_data r) of
                  None \<Rightarrow> (Inr (failed (Some ''No user data received'')), w1)
                | Some u \<Rightarrow>
                    (case ad_session (resp_data r) of
                       None \<Rightarrow> (Inr (failed (Some ''No user data received'')), w1)
                     | Some s \<Rightarrow>
                         let w2 = invoke (Select ''user_profiles'') w1 in
                         (case profile_by_id sb (su_id u) of
                            Rejects e \<Rightarrow> (Inl e, w2)
                          | Resolves p \<Rightarrow>
                              let profile = resp_data p;
                                  usr = \<lparr> au_id = su_id u,
                                          au_email = su_email u,
                                          au_name =
                                            js_or (js_or (opt_field pr_full_name profile)
                                                         (opt_field pr_name profile))
                                                  (su_meta_name u),
                                          au_full_name =
                                            js_or (js_or (opt_field pr_full_name profile)
                                                         (opt_field pr_name profile))
                                                  (su_meta_full_name u) \<rparr>
                              in (Inr \<lparr> success = True, user = Some usr,
                                        token = Some (access_token s), error = None,
                                        needsEmailConfirmation = None \<rparr>,
                                  saveUserCredentials usr (access_token s) w2))))))"

definition login_remote ::
  "supabase \<Rightarrow> world \<Rightarrow> string \<Rightarrow> string \<Rightarrow> (exn + AuthResponse) \<times> world" where
  "login_remote sb w email password =
     (case signIn_try sb w email password of
        (Inl e, w1) \<Rightarrow> (Inr (failed (Some (or_else (exn_message e) ''Login failed''))), w1)
      | (Inr r, w1) \<Rightarrow> (Inr r, w1))"

text \<open>
  \<open>login\<close>: the demo pair goes to the mock store. A reply of the mock store without
  \<open>success\<close> would fall through to the hosted backend; an error of the mock store is
  caught and returned.
\<close>

definition login ::
  "clock \<Rightarrow> supabase \<Rightarrow> world \<Rightarrow> string \<Rightarrow> string \<Rightarrow> (exn + AuthResponse) \<times> world" where
  "login clk sb w email password =
     (if email = ''demo@budgettracker.com'' \<and> password = ''demo1234'' then
        let w1 = invoke Mock_login w in
        case mock_login clk (mockUsers w1) email password of
          Inl e \<Rightarrow> (Inr (failed (exn_message e)), w1)
        | Inr response \<Rightarrow>
            if mr_success response then
              let usr = \<lparr> au_id = u_id (mr_user response),
                          au_email = u_email (mr_user response),
                          au_name = Some (u_name (mr_user response)),
                          au_full_name = Some (u_name (mr_user response)) \<rparr>;
                  w2 = saveUserCredentials usr (mr_token response) w1;
                  w3 = setItem ''userEmail'' (Text (au_email usr))
                         (setItem ''userId'' (Text (au_id usr))
                           (setItem ''isAuthenticated'' (Text ''true'')
                             (setItem ''userToken'' (Text (mr_token response)) w2)))
              in (Inr \<lparr> success = True, user = Some usr, token = Some (mr_token response),
                        error = None, needsEmailConfirmation = None \<rparr>, w3)
            else login_remote sb w1 email password
      else login_remote sb w email password)"


text \<open>
  \<open>authAPI.login\<close> of \<open>services/api.ts\<close>, the older entry point: under
  \<open>USE_MOCK_AUTH\<close> every login is answered by the mock store, an error of the store
  being thrown again as \<open>new Error(error.message)\<close>. The branch for the real
  implementation is the parameter \<open>backend\<close>.
\<close>

definition authAPI_login ::
  "(world \<Rightarrow> string \<Rightarrow> string \<Rightarrow> (exn + mock_reply) \<times> world) \<Rightarrow> clock \<Rightarrow> world
     \<Rightarrow> string \<Rightarrow> string \<Rightarrow> (exn + mock_reply) \<times> world" where
  "authAPI_login backend clk w email password =
     (if USE_MOCK_AUTH then
        let w1 = invoke Mock_login w in
        case mock_login clk (mockUsers w1) email password of
          Inl e \<Rightarrow> (Inl (Error (case exn_message e of None \<Rightarrow> [] | Some m \<Rightarrow> m)), w1)
        | Inr r \<Rightarrow> (Inr r, w1)
      else backend w email password)"

text \<open>
  \<open>error.message.includes(...)\<close> on an error without a message throws a \<open>TypeError\<close>
  (the text of its message is the engine's).
\<close>

definition TypeError :: exn where
  "TypeError = Exn (Some ''Cannot read properties of undefined'') None"

definition maxRetries :: nat where
  "maxRetries = 3"

definition maxProfileChecks :: nat where
  "maxProfileChecks = 5"

text \<open>
  After a sign-up that succeeded, the profile is looked up once a second until it is found,
  at most \<open>maxProfileChecks\<close> times; an error of a lookup is logged and ignored.
\<close>

function profile_checks :: "supabase \<Rightarrow> string \<Rightarrow> nat \<Rightarrow> world \<Rightarrow> world" where
  "profile_checks sb uid profileCheckAttempts w =
     (if profileCheckAttempts < maxProfileChecks then
        let w1 = invoke (Select ''user_profiles'') w in
        case profile_check sb profileCheckAttempts uid of
          Rejects e \<Rightarrow> profile_checks sb uid (profileCheckAttempts + 1) w1
        | Resolves r \<Rightarrow>
            if resp_data r \<noteq> None \<and> resp_error r = None then w1
            else profile_checks sb uid (profileCheckAttempts + 1) w1
      else w)"
  by pat_completeness auto
termination
  by (relation "measure (\<lambda>(sb, uid, n, w). maxProfileChecks - n)") auto

declare profile_checks.simps [simp del]

text \<open>The variables of the retry loop of \<open>register\<close>.\<close>

record reg_state =
  retryCount :: nat
  registrationData :: "auth_data option"
  registrationError :: "exn option"

datatype step = Break | Retry

text \<open>
  One turn of the loop. \<open>Retry\<close> is a turn that ends by \<open>retryCount++\<close> (the
  \<open>continue\<close>, and the \<open>catch\<close> of the turn); \<open>Break\<close> leaves the loop.
\<close>

definition signUp_attempt ::
  "supabase \<Rightarrow> string \<Rightarrow> string \<Rightarrow> string \<Rightarrow> reg_state \<Rightarrow> world \<Rightarrow> step \<times> reg_state \<times> world" where
  "signUp_attempt sb name email password st w =
     (let w1 = (if retryCount st = 0 then invoke (Rpc ''cleanup_orphaned_profile'') w else w);
          w2 = invoke Auth_signUp w1
      in case signUp sb (retryCount st) name email password of
           Rejects err \<Rightarrow> (Retry, st\<lparr>registrationError := Some err\<rparr>, w2)
         | Resolves r \<Rightarrow>
             let st1 = st\<lparr>registrationData := Some (resp_data r),
                          registrationError := resp_error r\<rparr>
             in (case resp_error r of
                   None \<Rightarrow>
                     (case ad_user (resp_data r) of
                        Some u \<Rightarrow> (Break, st1, profile_checks sb (su_id u) 0 w2)
                      | None \<Rightarrow>
                          if retryCount st < maxRetries then (Retry, st1, w2)
                          else (Break, st1, w2))
                 | Some e \<Rightarrow>
                     (case exn_message e of
                        None \<Rightarrow> (Retry, st1\<lparr>registrationError := Some TypeError\<rparr>, w2)
                      | Some m \<Rightarrow>
                          if str_includes m ''User already registered''
                             \<or> str_includes m ''already exists''
                             \<or> str_includes m ''email rate limit exceeded''
                          then (Break, st1, w2)
                          else if (str_includes m ''constraint'' \<or> str_includes m ''foreign key'')
                                  \<or> retryCount st < maxRetries
                          then (Retry, st1, w2)
                          else (Break, st1, w2))))"

function signUp_loop ::
  "supabase \<Rightarrow> string \<Rightarrow> string \<Rightarrow> string \<Rightarrow> reg_state \<Rightarrow> world \<Rightarrow> reg_state \<times> world" where
  "signUp_loop sb name email password st w =
     (if retryCount st \<le> maxRetries then
        case signUp_attempt sb name email password st w of
          (Break, st1, w1) \<Rightarrow> (st1, w1)
        | (Retry, st1, w1) \<Rightarrow>
            signUp_loop sb name email password (st1\<lparr>retryCount := retryCount st + 1\<rparr>) w1
      else (st, w))"
  by pat_completeness auto
termination
  by (relation "measure (\<lambda>(sb, name, email, password, st, w). Suc maxRetries - retryCount st)")
     auto

declare signUp_loop.simps [simp del]

definition already_exists :: string where
  "already_exists = ''An account with this email already exists. Please try logging in instead.''"

text \<open>\<open>registrationData?.user\<close> with the session beside it.\<close>

definition opt_user :: "auth_data option \<Rightarrow> (supa_user \<times> supa_session option) option" where
  "opt_user d =
     (case d of
        None \<Rightarrow> None
      | Some a \<Rightarrow> (case ad_user a of None \<Rightarrow> None | Some u \<Rightarrow> Some (u, ad_session a)))"

text \<open>The \<open>try\<close> block of \<open>register\<close>.\<close>

definition register_try ::
  "host \<Rightarrow> supabase \<Rightarrow> world \<Rightarrow> string \<Rightarrow> string \<Rightarrow> string
     \<Rightarrow> (exn + AuthResponse) \<times> world" where
  "register_try h sb w name email password =
     (let w1 = invoke (Rpc ''cleanup_orphaned_profile'') w;
          w2 = invoke (Select ''user_profiles'') w1
      in case profile_by_email sb (toLowerCase h email) of
           Rejects e \<Rightarrow> (Inl e, w2)
         | Resolves existing \<Rightarrow>
             if resp_data existing \<noteq> None then (Inr (failed (Some already_exists)), w2)
             else
               (case signUp_loop sb name email password
                       \<lparr> retryCount = 0, registrationData = None, registrationError = None \<rparr> w2 of
                  (st, w3) \<Rightarrow>
                    (case registrationError st of
                       Some err \<Rightarrow>
                         (case exn_message err of
                            None \<Rightarrow> (Inl TypeError, w3)
                          | Some m \<Rightarrow>
                              if str_includes m ''User already registered''
                                 \<or> str_includes m ''already exists''
                              then (Inr (failed (Some already_exists)), w3)
                              else if str_includes m ''email rate limit''
                              then (Inr (failed (Some
                                ''Too many registration attempts. Please wait a few minutes and try again.'')), w3)
                              else (Inl err, w3))
                     | None \<Rightarrow>
                         (case opt_user (registrationData st) of
                            None \<Rightarrow>
                              (Inr (failed (Some ''Registration failed - no user data received'')), w3)
                          | Some (u, None) \<Rightarrow>
                              (Inr \<lparr> success = True, user = None, token = None,
                                     error = Some
                                       ''Please check your email and click the confirmation link. You will be redirected to your dashboard automatically.'',
                                     needsEmailConfirmation = Some True \<rparr>,
                               session_setItem ''pendingUserName'' (Text name)
                                 (session_setItem ''pendingUserRegistration'' (Text ''true'') w3))
                          | Some (u, Some s) \<Rightarrow>
                              let usr = \<lparr> au_id = su_id u, au_email = su_email u,
                                          au_name = Some name, au_full_name = Some name \<rparr>
                              in (Inr \<lparr> success = True, user = Some usr,
                                        token = Some (access_token s), error = None,
                                        needsEmailConfirmation = None \<rparr>,
                                  saveUserCredentials usr (access_token s) w3)))))"

text \<open>The \<open>catch\<close> of \<open>register\<close>.\<close>

definition register_catch :: "exn \<Rightarrow> AuthResponse" where
  "register_catch e =
     (if (case exn_message e of
            None \<Rightarrow> False
          | Some m \<Rightarrow> str_includes m ''duplicate key value'' \<or> str_includes m ''profiles_email_key'')
         \<or> exn_code e = Some ''23505''
      then failed (Some already_exists)
      else failed (Some (or_else (exn_message e) ''Registration failed'')))"

definition register ::
  "host \<Rightarrow> supabase \<Rightarrow> world \<Rightarrow> string \<Rightarrow> string \<Rightarrow> string
     \<Rightarrow> (exn + AuthResponse) \<times> world" where
  "register h sb w name email password =
     (case register_try h sb w name email password of
        (Inl e, w1) \<Rightarrow> (Inr (register_catch e), w1)
      | (Inr r, w1) \<Rightarrow> (Inr r, w1))"

text \<open>\<open>logout\<close> and the keys it removes.\<close>

definition keysToRemove :: "string list" where
  "keysToRemove =
     [''token'', ''userData'', ''currentUser'', ''userProfile'', ''transactions'',
      ''customCategories'', ''reminders'', ''monthlyBudget'', ''cartItems'',
      ''paidRemindersHistory'', ''profileData'', ''sb-hyakzfaxrfsistgwlzln-auth-token'']"

definition clearLocalStorageOnly :: "world \<Rightarrow> world" where
  "clearLocalStorageOnly w =
     w\<lparr>localStorage := removeItems keysToRemove (localStorage w),
       sessionStorage := Map.empty\<rparr>"

record logout_reply =
  lo_success :: bool
  lo_error :: "string option"

definition logout :: "supabase \<Rightarrow> world \<Rightarrow> (exn + logout_reply) \<times> world" where
  "logout sb w =
     (let w1 = invoke Auth_signOut w in
      case signOut sb of
        Rejects e \<Rightarrow>
          (Inr \<lparr> lo_success = True, lo_error = exn_message e \<rparr>, clearLocalStorageOnly w1)
      | Resolves err \<Rightarrow>
          (Inr \<lparr> lo_success = True, lo_error = None \<rparr>, clearLocalStorageOnly w1))"


section \<open>The sign-up page (\<open>pages/Signup.tsx\<close>)\<close>

record formData =
  fd_name :: string
  fd_email :: string
  fd_password :: string
  fd_confirmPassword :: string

text \<open>The state of the page: the message shown, the flags, and where it navigated.\<close>

record page =
  pg_error :: string
  pg_loading :: bool
  pg_showEmailConfirmation :: bool
  pg_navigated :: "string option"

definition handleSubmit ::
  "host \<Rightarrow> supabase \<Rightarrow> formData \<Rightarrow> page \<Rightarrow> world \<Rightarrow> page \<times> world" where
  "handleSubmit h sb fd pg w =
     (let pg1 = pg\<lparr>pg_error := '''', pg_loading := True\<rparr> in
      if fd_name fd = [] \<or> fd_email fd = [] \<or> fd_password fd = [] \<or> fd_confirmPassword fd = []
      then (pg1\<lparr>pg_error := ''Please fill all fields'', pg_loading := False\<rparr>, w)
      else if fd_password fd \<noteq> fd_confirmPassword fd
      then (pg1\<lparr>pg_error := ''Passwords do not match'', pg_loading := False\<rparr>, w)
      else if length (fd_password fd) < 8
      then (pg1\<lparr>pg_error := ''Password must be at least 8 characters'', pg_loading := False\<rparr>, w)
      else
        case register h sb w (fd_name fd) (fd_email fd) (fd_password fd) of
          (Inl err, w1) \<Rightarrow>
            (pg1\<lparr>pg_error := or_else (exn_message err) ''Registration failed. Please try again.'',
                 pg_loading := False\<rparr>, w1)
        | (Inr response, w1) \<Rightarrow>
            if success response then
              if needsEmailConfirmation response = Some True
              then (pg1\<lparr>pg_showEmailConfirmation := True, pg_error := '''',
                        pg_loading := False\<rparr>, w1)
              else
                (pg1\<lparr>pg_navigated := Some ''/dashboard'', pg_loading := False\<rparr>,
                 (session_setItem ''registeredName'' (Text (fd_name fd))
                   (session_setItem ''newUserRegistration'' (Text ''true'') w1))
                 \<lparr>localStorage :=
                     removeItems [''transactions'', ''customCategories'', ''reminders'',
                                  ''monthlyBudget'', ''cartItems'', ''paidRemindersHistory'']
                       (localStorage w1)\<rparr>)
            else
              (pg1\<lparr>pg_error := or_else (error response)
                                   ''Registration failed: Invalid response from server'',
                   pg_loading := False\<rparr>, w1))"


section \<open>Results that carry an answer\<close>

text \<open>
  A result of the authentication service tells its caller something: it reports success, or
  it holds an error message that is not empty.
\<close>

definition answered :: "AuthResponse \<Rightarrow> bool" where
  "answered r = (success r \<or> truthy (error r))"

text \<open>
  A sign-up attempt fails when the promise is rejected, or when it resolves with an error
  in the \<open>error\<close> field of the answer.
\<close>

definition attempt_fails :: "auth_data response outcome \<Rightarrow> bool" where
  "attempt_fails out = (case out of Rejects e \<Rightarrow> True | Resolves a \<Rightarrow> resp_error a \<noteq> None)"


section \<open>Categories in the local store\<close>

text \<open>
  The list of categories \<open>createCategory\<close> works on: the empty list when the key
  \<open>categories\<close> is absent, the stored list otherwise.
\<close>

definition stored_categories :: "storage \<Rightarrow> category list option" where
  "stored_categories ls =
     (if falsy (ls ''categories'') then Some []
      else case parse_categories (ls ''categories'') of Inl e \<Rightarrow> None | Inr cs \<Rightarrow> Some cs)"

text \<open>
  Two categories are the same for \<open>createCategory\<close> when they have the same type and
  the same name up to the case of the letters; a list is unique when no two of its
  categories are the same in that sense.
\<close>

definition category_key :: "host \<Rightarrow> category \<Rightarrow> string \<times> txn_type" where
  "category_key h c = (toLowerCase h (c_name c), c_type c)"

definition unique_categories :: "host \<Rightarrow> category list \<Rightarrow> bool" where
  "unique_categories h cs = distinct (map (category_key h) cs)"


section \<open>Sample data\<close>

text \<open>A reading of the clock, used where a property is evaluated on a concrete call.\<close>

definition sample_clock :: clock where
  "sample_clock = \<lparr> now = 1700000000000, iso = ''2023-11-14T22:13:20.000Z'' \<rparr>"

text \<open>
  The user maps the mock store can hold: the seeded one, changed by any sequence of
  \<open>register\<close> calls (the only method that writes the map).
\<close>

definition store_after :: "(clock \<times> string \<times> string \<times> string) list \<Rightarrow> users" where
  "store_after regs =
     fold (\<lambda>(clk, name, email, password) us. snd (mock_register clk us name email password))
       regs initial_users"

text \<open>A backend that cannot be reached: every call is rejected with a network error.\<close>

definition offline :: supabase where
  "offline =
     \<lparr> signInWithPassword = (\<lambda>email password. Rejects (Error ''Failed to fetch'')),
       signUp = (\<lambda>n name email password. Rejects (Error ''Failed to fetch'')),
       signOut = Rejects (Error ''Failed to fetch''),
       profile_by_id = (\<lambda>uid. Rejects (Error ''Failed to fetch'')),
       profile_by_email = (\<lambda>email. Rejects (Error ''Failed to fetch'')),
       profile_check = (\<lambda>n uid. Rejects (Error ''Failed to fetch'')) \<rparr>"

text \<open>
  A backend that knows one account, \<open>asha@example.com\<close> with the password
  \<open>s3cretpass\<close>: it signs that account in, signs a new email up with a session, and
  refuses everything else.
\<close>

definition asha :: supa_user where
  "asha = \<lparr> su_id = ''7f3c'', su_email = ''asha@example.com'',
            su_meta_name = Some ''Asha'', su_meta_full_name = Some ''Asha Rao'' \<rparr>"

definition online :: supabase where
  "online =
     \<lparr> signInWithPassword = (\<lambda>email password.
         if email = ''asha@example.com'' \<and> password = ''s3cretpass''
         then Resolves \<lparr> resp_data = \<lparr> ad_user = Some asha,
                                        ad_session = Some \<lparr> access_token = ''tok-1'' \<rparr> \<rparr>,
                          resp_error = None \<rparr>
         else Resolves \<lparr> resp_data = \<lparr> ad_user = None, ad_session = None \<rparr>,
                          resp_error = Some (Error ''Invalid login credentials'') \<rparr>),
       signUp = (\<lambda>n name email password.
         Resolves \<lparr> resp_data = \<lparr> ad_user = Some (asha\<lparr>su_email := email\<rparr>),
                                   ad_session = Some \<lparr> access_token = ''tok-2'' \<rparr> \<rparr>,
                     resp_error = None \<rparr>),
       signOut = Resolves None,
       profile_by_id = (\<lambda>uid.
         Resolves \<lparr> resp_data = Some \<lparr> pr_full_name = Some ''Asha Rao'', pr_name = None \<rparr>,
                     resp_error = None \<rparr>),
       profile_by_email = (\<lambda>email. Resolves \<lparr> resp_data = None, resp_error = None \<rparr>),
       profile_check = (\<lambda>n uid.
         Resolves \<lparr> resp_data = Some \<lparr> pr_full_name = Some ''Asha Rao'', pr_name = None \<rparr>,
                     resp_error = None \<rparr>) \<rparr>"

text \<open>The same backend while its sign-up cannot be reached.\<close>

definition signup_down :: supabase where
  "signup_down =
     online\<lparr>signUp := (\<lambda>n name email password. Rejects (Error ''Failed to fetch''))\<rparr>"

text \<open>The same backend when it answers every sign-up with the error of a known email.\<close>

definition signup_refused :: supabase where
  "signup_refused =
     online\<lparr>signUp := (\<lambda>n name email password.
       Resolves \<lparr> resp_data = \<lparr> ad_user = None, ad_session = None \<rparr>,
                   resp_error = Some (Error ''User already registered'') \<rparr>)\<rparr>"

text \<open>A browser just opened on the application: empty stores, the seeded mock store, no call made.\<close>

definition fresh :: world where
  "fresh = \<lparr> localStorage = Map.empty, sessionStorage = Map.empty,
             mockUsers = initial_users, calls = [] \<rparr>"

text \<open>A browser after some use: a token, a list of categories and a list of transactions are cached.\<close>

definition cached :: world where
  "cached =
     fresh\<lparr>localStorage :=
       [''token'' \<mapsto> Text ''tok-1'',
        ''categories'' \<mapsto> CategoryList [],
        ''transactions'' \<mapsto> TransactionList []]\<rparr>"

text \<open>The sign-up page before anything was typed or sent.\<close>

definition blank :: page where
  "blank = \<lparr> pg_error = '''', pg_loading = False, pg_showEmailConfirmation = False,
             pg_navigated = None \<rparr>"

text \<open>A form with a short password whose confirmation differs, and one where it is repeated.\<close>

definition mismatched :: formData where
  "mismatched = \<lparr> fd_name = ''Asha'', fd_email = ''asha@example.com'',
                  fd_password = ''short'', fd_confirmPassword = ''other'' \<rparr>"

definition seven :: formData where
  "seven = \<lparr> fd_name = ''Asha'', fd_email = ''asha@example.com'',
             fd_password = ''1234567'', fd_confirmPassword = ''1234567'' \<rparr>"

text \<open>Two of the default categories, a store that holds them, and a request for \<open>FOOD\<close>.\<close>

definition food :: category where
  "food = \<lparr> c__id = ''cat-1'', c_id = None, c_name = ''Food'', c_type = Expense,
             c_color = Some ''#FF7D7D'', c_icon = Some ''food'', c_budget = None,
             c_createdAt = None \<rparr>"

definition salary :: category where
  "salary = \<lparr> c__id = ''cat-8'', c_id = None, c_name = ''Income'', c_type = Income,
             c_color = Some ''#00BF63'', c_icon = Some ''cash'', c_budget = None,
             c_createdAt = None \<rparr>"

definition pantry :: storage where
  "pantry = [''categories'' \<mapsto> CategoryList [food, salary]]"

definition food_again :: category_input where
  "food_again = \<lparr> ci_id = None, ci_name = ''FOOD'', ci_type = Expense, ci_color = None,
                  ci_icon = None, ci_budget = None \<rparr>"

text \<open>A request for a category the store does not have.\<close>

definition travel :: category_input where
  "travel = \<lparr> ci_id = None, ci_name = ''Travel'', ci_type = Expense,
              ci_color = Some ''#10B981'', ci_icon = Some ''plane'', ci_budget = Some 300 \<rparr>"

text \<open>
  The branch for the hosted backend, for a client that cannot reach it: the call throws
  and the store is as it was.
\<close>

definition unreachable :: "storage \<Rightarrow> 'a \<Rightarrow> (exn + 'b) \<times> storage" where
  "unreachable ls x = (Inl (Error ''Failed to fetch''), ls)"

text \<open>
  Two transactions of January 2024, an expense at noon (UTC) of the 31st and an income on
  the 15th, and a store that holds them beside the two categories.
\<close>

definition groceries :: transaction where
  "groceries = \<lparr> t__id = ''trans-1'', t_type = Expense, t_amount = 250,
                 t_category = ''Food'', t_description = ''Groceries'',
                 t_date = ''2024-01-31T12:00:00.000Z'', t_createdAt = None \<rparr>"

definition paycheck :: transaction where
  "paycheck = \<lparr> t__id = ''trans-2'', t_type = Income, t_amount = 1000,
                t_category = ''Income'', t_description = ''Salary'',
                t_date = ''2024-01-15T09:30:00.000Z'', t_createdAt = None \<rparr>"

definition ledger :: storage where
  "ledger = [''categories'' \<mapsto> CategoryList [food, salary],
             ''transactions'' \<mapsto> TransactionList [groceries, paycheck]]"

text \<open>
  The lowering of the letters A to Z, every other code unit kept: what
  \<open>String.prototype.toLowerCase\<close> gives on a string of ASCII characters, as the names
  and emails of the samples are.
\<close>

definition ascii_lower_char :: "char \<Rightarrow> char" where
  "ascii_lower_char c =
     (case map_of (zip ''ABCDEFGHIJKLMNOPQRSTUVWXYZ'' ''abcdefghijklmnopqrstuvwxyz'') c of
        None \<Rightarrow> c
      | Some l \<Rightarrow> l)"

text \<open>
  A host in the UTC time zone; of the date strings it parses, the two of the sample
  transactions are given, with their time values; of its lowering of letters, the part on
  ASCII strings.
\<close>

definition utc_host :: host where
  "utc_host =
     \<lparr> UTC = (\<lambda>t. t),
       Date_parse = (\<lambda>s. if s = ''2024-01-31T12:00:00.000Z'' then Some 1706702400000
                          else if s = ''2024-01-15T09:30:00.000Z'' then Some 1705311000000
                          else None),
       toLowerCase = map ascii_lower_char \<rparr>"

definition unreachable_monthly :: "storage \<Rightarrow> int \<Rightarrow> int \<Rightarrow> exn + monthly api_reply" where
  "unreachable_monthly ls year month = Inr (Failure ''Failed to fetch'')"


section \<open>The mock store strips the password from its replies\<close>

lemma decimal_nonempty: "decimal n \<noteq> []"
  by (subst decimal.simps) simp

lemma generateToken_nonempty: "generateToken clk uid \<noteq> []"
  by (simp add: generateToken_def)

lemma mock_login_Inr:
  "mock_login clk us email password = Inr r \<Longrightarrow>
     \<exists>u. us email = Some u \<and> u_password u = Some password
        \<and> r = \<lparr> mr_success = True, mr_token = generateToken clk (u_id u),
                mr_user = without_password u \<rparr>"
  by (auto simp: mock_login_def split: if_splits option.splits)

lemma mock_login_Inl:
  "mock_login clk us email password = Inl e \<Longrightarrow> \<exists>m. exn_message e = Some m \<and> m \<noteq> []"
  by (auto simp: mock_login_def Error_def split: if_splits option.splits)

lemma mock_register_Inr:
  "mock_register clk us name email password = (Inr r, us') \<Longrightarrow>
     \<exists>u. us' = us(email \<mapsto> u) \<and> u_password u = Some password
        \<and> mr_user r = without_password u \<and> us email = None \<and> 8 \<le> length password"
  by (auto simp: mock_register_def Let_def split: if_splits)

text \<open>
  Claim C10. Whenever \<open>register\<close> or \<open>login\<close> of the mock store returns a reply, the user
  object of the reply has no \<open>password\<close> field, while the user kept in the store's map
  under that email still has the password.
\<close>

theorem mock_reply_without_password:
  "(mock_register clk us name email password = (Inr r1, us') \<longrightarrow>
      u_password (mr_user r1) = None
      \<and> (\<exists>u. us' email = Some u \<and> u_password u = Some password))
   \<and> (mock_login clk us email password = Inr r2 \<longrightarrow>
      u_password (mr_user r2) = None
      \<and> (\<exists>u. us email = Some u \<and> u_password u = Some password))"
proof (intro conjI impI)
  assume "mock_register clk us name email password = (Inr r1, us')"
  then obtain u where u: "us' = us(email \<mapsto> u)" "u_password u = Some password"
      "mr_user r1 = without_password u"
    using mock_register_Inr by blast
  show "u_password (mr_user r1) = None" by (simp add: u without_password_def)
  show "\<exists>u. us' email = Some u \<and> u_password u = Some password" using u by simp
next
  assume "mock_login clk us email password = Inr r2"
  then obtain u where u: "us email = Some u" "u_password u = Some password"
      "r2 = \<lparr> mr_success = True, mr_token = generateToken clk (u_id u),
               mr_user = without_password u \<rparr>"
    using mock_login_Inr by blast
  show "u_password (mr_user r2) = None" by (simp add: u without_password_def)
  show "\<exists>u. us email = Some u \<and> u_password u = Some password" using u by simp
qed

theorem mock_reply_without_password_witness:
  "(\<exists>r us'. mock_register sample_clock initial_users ''Asha'' ''asha@example.com'' ''s3cretpass''
                = (Inr r, us')
       \<and> u_password (mr_user r) = None
       \<and> (\<exists>u. us' ''asha@example.com'' = Some u \<and> u_password u = Some ''s3cretpass''))
   \<and> (\<exists>r. mock_login sample_clock initial_users ''demo@budgettracker.com'' ''demo1234'' = Inr r
       \<and> u_password (mr_user r) = None
       \<and> (\<exists>u. initial_users ''demo@budgettracker.com'' = Some u
              \<and> u_password u = Some ''demo1234''))"
proof -
  obtain r us' where reg:
    "mock_register sample_clock initial_users ''Asha'' ''asha@example.com'' ''s3cretpass''
       = (Inr r, us')"
    by (simp add: mock_register_def initial_users_def DEMO_USER_def Let_def)
  obtain r2 where lg:
    "mock_login sample_clock initial_users ''demo@budgettracker.com'' ''demo1234'' = Inr r2"
    by (simp add: mock_login_def initial_users_def DEMO_USER_def)
  from mock_reply_without_password
    [of sample_clock initial_users "''Asha''" "''asha@example.com''" "''s3cretpass''" r us']
    reg
  have a: "u_password (mr_user r) = None
       \<and> (\<exists>u. us' ''asha@example.com'' = Some u \<and> u_password u = Some ''s3cretpass'')"
    by blast
  from mock_reply_without_password
    [of sample_clock initial_users _ "''demo@budgettracker.com''" "''demo1234''" _ _ r2]
    lg
  have b: "u_password (mr_user r2) = None
       \<and> (\<exists>u. initial_users ''demo@budgettracker.com'' = Some u
              \<and> u_password u = Some ''demo1234'')"
    by blast
  show ?thesis using reg lg a b by blast
qed


section \<open>The demo login\<close>

lemma mock_register_keeps:
  "us d = Some x \<Longrightarrow> snd (mock_register clk us name email password) d = Some x"
  by (auto simp: mock_register_def Let_def)

lemma fold_register_keeps:
  "us d = Some x \<Longrightarrow>
   fold (\<lambda>(clk, name, email, password) us. snd (mock_register clk us name email password))
     regs us d = Some x"
proof (induction regs arbitrary: us)
  case Nil
  then show ?case by simp
next
  case (Cons a regs)
  obtain clk name email password where a: "a = (clk, name, email, password)"
    by (cases a) auto
  have "snd (mock_register clk us name email password) d = Some x"
    using Cons.prems by (rule mock_register_keeps)
  then show ?case using Cons.IH by (simp add: a)
qed

text \<open>No sequence of registrations replaces the demo user.\<close>

lemma store_after_demo: "store_after regs ''demo@budgettracker.com'' = Some DEMO_USER"
  unfolding store_after_def
  by (rule fold_register_keeps) (simp add: initial_users_def DEMO_USER_def)

lemma mock_login_demo:
  "us ''demo@budgettracker.com'' = Some DEMO_USER \<Longrightarrow>
   mock_login clk us ''demo@budgettracker.com'' ''demo1234''
     = Inr \<lparr> mr_success = True, mr_token = generateToken clk ''demo-user-id'',
             mr_user = without_password DEMO_USER \<rparr>"
  by (simp add: mock_login_def DEMO_USER_def)

text \<open>
  Claim C6. Whatever was registered at the mock store before, whatever the hosted backend
  would answer and whatever the browser stores hold, \<open>login\<close> with
  \<open>demo@budgettracker.com\<close> and \<open>demo1234\<close> returns a result with \<open>success\<close> true, a
  token that is not empty, and a user whose id is \<open>demo-user-id\<close>.
\<close>

theorem demo_login:
  "\<exists>r w'. login clk sb (w\<lparr>mockUsers := store_after regs\<rparr>)
             ''demo@budgettracker.com'' ''demo1234'' = (Inr r, w')
     \<and> success r
     \<and> (\<exists>t. token r = Some t \<and> t \<noteq> [])
     \<and> (\<exists>u. user r = Some u \<and> au_id u = ''demo-user-id'')"
proof -
  have m: "mock_login clk (store_after regs) ''demo@budgettracker.com'' ''demo1234''
     = Inr \<lparr> mr_success = True, mr_token = generateToken clk ''demo-user-id'',
             mr_user = without_password DEMO_USER \<rparr>"
    using store_after_demo by (rule mock_login_demo)
  show ?thesis
    by (simp add: login_def invoke_def Let_def m
      generateToken_nonempty without_password_def DEMO_USER_def)
qed

lemma demo_login_start:
  "mock_login clk initial_users ''demo@budgettracker.com'' ''demo1234''
     = Inr \<lparr> mr_success = True, mr_token = generateToken clk ''demo-user-id'',
             mr_user = without_password DEMO_USER \<rparr>"
  by (rule mock_login_demo) (simp add: initial_users_def DEMO_USER_def)

lemma demo_login_at_start:
  "\<exists>r w'. login clk sb fresh ''demo@budgettracker.com'' ''demo1234'' = (Inr r, w') \<and> success r"
  by (simp add: login_def invoke_def Let_def fresh_def demo_login_start)

theorem demo_login_witness:
  "\<exists>r w'. login sample_clock offline fresh ''demo@budgettracker.com'' ''demo1234'' = (Inr r, w')
     \<and> success r
     \<and> (\<exists>t. token r = Some t \<and> t \<noteq> [])
     \<and> (\<exists>u. user r = Some u \<and> au_id u = ''demo-user-id'')"
proof -
  have "fresh\<lparr>mockUsers := store_after []\<rparr> = fresh"
    by (simp add: fresh_def store_after_def)
  then show ?thesis
    using demo_login [where clk = sample_clock and sb = offline and w = fresh and regs = "[]"]
    by simp
qed


section \<open>Which backend a login calls\<close>

lemma calls_setItem [simp]: "calls (setItem k v w) = calls w"
  by (simp add: setItem_def)

lemma calls_session_setItem [simp]: "calls (session_setItem k v w) = calls w"
  by (simp add: session_setItem_def)

lemma calls_saveUserCredentials [simp]: "calls (saveUserCredentials usr tok w) = calls w"
  by (simp add: saveUserCredentials_def)

lemma calls_invoke [simp]: "calls (invoke c w) = calls w @ [c]"
  by (simp add: invoke_def)

lemma signIn_try_calls:
  "signIn_try sb w email password = (x, w') \<Longrightarrow>
     calls w' = calls w @ [Auth_signInWithPassword]
     \<or> calls w' = calls w @ [Auth_signInWithPassword, Select ''user_profiles'']"
  by (auto simp: signIn_try_def Let_def split: outcome.splits option.splits)

lemma login_remote_calls:
  "login_remote sb w email password = (x, w') \<Longrightarrow>
     calls w' = calls w @ [Auth_signInWithPassword]
     \<or> calls w' = calls w @ [Auth_signInWithPassword, Select ''user_profiles'']"
  by (auto simp: login_remote_def split: prod.splits sum.splits dest: signIn_try_calls)

text \<open>The demo pair is answered by the mock store alone, also when the login fails.\<close>

lemma login_demo_calls:
  "login clk sb w ''demo@budgettracker.com'' ''demo1234'' = (x, w') \<Longrightarrow>
     calls w' = calls w @ [Mock_login]"
  by (auto simp: login_def Let_def split: sum.splits if_splits dest: mock_login_Inr)

lemma login_other_calls:
  "\<not> (email = ''demo@budgettracker.com'' \<and> password = ''demo1234'') \<Longrightarrow>
   login clk sb w email password = (x, w') \<Longrightarrow>
     calls w' = calls w @ [Auth_signInWithPassword]
     \<or> calls w' = calls w @ [Auth_signInWithPassword, Select ''user_profiles'']"
proof -
  assume "\<not> (email = ''demo@budgettracker.com'' \<and> password = ''demo1234'')"
    and "login clk sb w email password = (x, w')"
  then have "login_remote sb w email password = (x, w')"
    by (simp add: login_def split: if_splits)
  then show ?thesis by (rule login_remote_calls)
qed

text \<open>
  Claim C3. When \<open>login\<close> returns a result with \<open>success\<close> true, the calls it made go to
  exactly one backend: the mock store is called if and only if the credentials are the
  demo pair, and the hosted backend is called if and only if they are not.
\<close>

theorem login_one_backend:
  assumes "login clk sb w email password = (Inr r, w')" and "success r"
  shows "\<exists>new. calls w' = calls w @ new
           \<and> (Mock_login \<in> set new \<longleftrightarrow>
                email = ''demo@budgettracker.com'' \<and> password = ''demo1234'')
           \<and> ((\<exists>c \<in> set new. remote_call c) \<longleftrightarrow>
                \<not> (email = ''demo@budgettracker.com'' \<and> password = ''demo1234''))"
proof (cases "email = ''demo@budgettracker.com'' \<and> password = ''demo1234''")
  case True
  then have "calls w' = calls w @ [Mock_login]"
    using assms(1) login_demo_calls by blast
  then show ?thesis using True by (simp add: remote_call_def)
next
  case False
  from login_other_calls[OF False assms(1)]
  show ?thesis using False by (auto simp: remote_call_def)
qed

text \<open>
  The older \<open>authAPI.login\<close> agrees on the seeded mock store, where the demo user is
  the only user: a login that returns is a login with the demo pair, answered by the mock
  store alone.
\<close>

lemma authAPI_login_seeded:
  assumes "mockUsers w = initial_users"
    and "authAPI_login backend clk w email password = (Inr r, w')"
  shows "calls w' = calls w @ [Mock_login]
     \<and> email = ''demo@budgettracker.com'' \<and> password = ''demo1234''"
  using assms
  by (auto simp: authAPI_login_def USE_MOCK_AUTH_def Let_def invoke_def mock_login_def
      initial_users_def DEMO_USER_def split: sum.splits if_splits option.splits)

lemma login_online_asha:
  "\<exists>r w'. login sample_clock online fresh ''asha@example.com'' ''s3cretpass'' = (Inr r, w')
     \<and> success r"
  by (simp add: login_def login_remote_def signIn_try_def online_def asha_def Let_def)

theorem login_one_backend_witness:
  "(\<exists>r w' new. login sample_clock online fresh ''asha@example.com'' ''s3cretpass'' = (Inr r, w')
      \<and> success r \<and> calls w' = calls fresh @ new
      \<and> Mock_login \<notin> set new \<and> (\<exists>c \<in> set new. remote_call c))
   \<and> (\<exists>r w' new. login sample_clock online fresh ''demo@budgettracker.com'' ''demo1234''
                    = (Inr r, w')
      \<and> success r \<and> calls w' = calls fresh @ new
      \<and> Mock_login \<in> set new \<and> \<not> (\<exists>c \<in> set new. remote_call c))"
proof -
  obtain r w' where a: "login sample_clock online fresh ''asha@example.com'' ''s3cretpass''
      = (Inr r, w')" "success r"
    using login_online_asha by blast
  obtain r2 w2 where b: "login sample_clock online fresh ''demo@budgettracker.com''
      ''demo1234'' = (Inr r2, w2)" "success r2"
    using demo_login_at_start by blast
  from login_one_backend [OF a] login_one_backend [OF b] a b
  show ?thesis by (simp (no_asm_use)) blast
qed


section \<open>Logout\<close>

lemma removeItems_apply:
  "removeItems ks ls k = (if k \<in> set ks then None else ls k)"
  by (induction ks arbitrary: ls) auto

text \<open>Both branches of \<open>logout\<close> clear the stores and report success.\<close>

lemma logout_result:
  "logout sb w =
     (Inr \<lparr> lo_success = True,
            lo_error = (case signOut sb of Rejects e \<Rightarrow> exn_message e | Resolves x \<Rightarrow> None) \<rparr>,
      clearLocalStorageOnly (invoke Auth_signOut w))"
  by (cases "signOut sb") (simp_all add: logout_def Let_def)

lemma localStorage_logout:
  "localStorage (snd (logout sb w)) k
     = (if k \<in> set keysToRemove then None else localStorage w k)"
  by (simp add: logout_result clearLocalStorageOnly_def invoke_def removeItems_apply)

text \<open>
  Claim C7. Every execution of \<open>logout\<close> returns a result with \<open>success\<close> true, whether
  the sign-out at the hosted backend resolves without an error, resolves with an error or
  is rejected. The only call it makes to the hosted backend is that sign-out of the
  authentication API (no query, insertion, update or remote procedure on the data), the
  mock store is left as it was, and in the browser it only removes: the session store is
  emptied and the local store loses the keys of \<open>keysToRemove\<close> and keeps every other key.
\<close>

theorem logout_always_succeeds:
  "\<exists>rep w'. logout sb w = (Inr rep, w')
     \<and> lo_success rep
     \<and> calls w' = calls w @ [Auth_signOut]
     \<and> mockUsers w' = mockUsers w
     \<and> sessionStorage w' = Map.empty
     \<and> (\<forall>k. localStorage w' k = (if k \<in> set keysToRemove then None else localStorage w k))"
  by (simp add: logout_result clearLocalStorageOnly_def invoke_def removeItems_apply)

theorem logout_always_succeeds_witness:
  "\<exists>rep w'. logout offline cached = (Inr rep, w')
     \<and> lo_success rep
     \<and> lo_error rep = Some ''Failed to fetch''
     \<and> calls w' = [Auth_signOut]
     \<and> localStorage w' ''token'' = None"
proof -
  have "''token'' \<in> set keysToRemove"
    by (simp add: keysToRemove_def)
  moreover have "calls cached = []"
    by (simp add: cached_def fresh_def)
  moreover have "logout offline cached
      = (Inr \<lparr> lo_success = True, lo_error = Some ''Failed to fetch'' \<rparr>,
         clearLocalStorageOnly (invoke Auth_signOut cached))"
    by (simp add: logout_result offline_def Error_def)
  ultimately show ?thesis
    using logout_always_succeeds [of offline cached] by auto
qed

lemma categories_kept: "''categories'' \<notin> set keysToRemove"
  by (simp add: keysToRemove_def)

lemma listed_keys_removed:
  "list_all (\<lambda>k. k \<in> set keysToRemove)
     [''token'', ''userData'', ''userProfile'', ''transactions'', ''customCategories'',
      ''reminders'', ''monthlyBudget'', ''cartItems'', ''paidRemindersHistory'']"
  by (simp add: keysToRemove_def)

text \<open>
  Claim C2, as the specification states it, fails at the key \<open>categories\<close>: it is not
  among the keys \<open>logout\<close> removes, so a cached list of categories is still in the local
  store after a logout.
\<close>

theorem logout_keeps_categories:
  "localStorage (snd (logout online cached)) ''categories'' = Some (CategoryList [])"
  by (simp add: localStorage_logout categories_kept cached_def)

text \<open>
  Claim C2, amended. Whatever the sign-out at the hosted backend does (it resolves without
  an error, resolves with an error, or is rejected), after \<open>logout\<close> the local store has
  none of the keys \<open>token\<close>, \<open>userData\<close>, \<open>userProfile\<close>, \<open>transactions\<close>,
  \<open>customCategories\<close>, \<open>reminders\<close>, \<open>monthlyBudget\<close>, \<open>cartItems\<close> and
  \<open>paidRemindersHistory\<close>; the key \<open>categories\<close> keeps the value it had.
\<close>

theorem logout_clears_cache:
  "list_all (\<lambda>k. localStorage (snd (logout sb w)) k = None)
     [''token'', ''userData'', ''userProfile'', ''transactions'', ''customCategories'',
      ''reminders'', ''monthlyBudget'', ''cartItems'', ''paidRemindersHistory'']
   \<and> localStorage (snd (logout sb w)) ''categories'' = localStorage w ''categories''"
  using listed_keys_removed by (simp add: localStorage_logout categories_kept)

theorem logout_clears_cache_witness:
  "localStorage (snd (logout offline cached)) ''token'' = None
   \<and> localStorage (snd (logout offline cached)) ''transactions'' = None
   \<and> localStorage (snd (logout offline cached)) ''categories'' = Some (CategoryList [])"
  using logout_clears_cache [of offline cached] by (simp add: cached_def)


section \<open>No exception leaves \<open>login\<close> or \<open>register\<close>\<close>


lemma or_else_nonempty: "d \<noteq> [] \<Longrightarrow> or_else a d \<noteq> []"
  by (simp add: or_else_def split: option.splits)


lemma answered_iff: "answered r \<longleftrightarrow> success r \<or> (\<exists>m. error r = Some m \<and> m \<noteq> [])"
  by (auto simp: answered_def truthy_def split: option.splits)

lemma answered_failed: "m \<noteq> [] \<Longrightarrow> answered (failed (Some m))"
  by (simp add: answered_iff failed_def)

lemma not_success_failed [simp]: "\<not> success (failed m)"
  by (simp add: failed_def)

lemma signIn_try_answered:
  "signIn_try sb w email password = (Inr r, w') \<Longrightarrow> answered r"
  by (auto simp: signIn_try_def Let_def answered_iff failed_def split: outcome.splits option.splits)

lemma login_remote_total:
  "\<exists>r w'. login_remote sb w email password = (Inr r, w') \<and> answered r"
proof (cases "signIn_try sb w email password")
  case (Pair x w1)
  show ?thesis
  proof (cases x)
    case (Inl e)
    then show ?thesis using Pair
      by (simp add: login_remote_def answered_failed or_else_nonempty)
  next
    case (Inr r)
    then show ?thesis using Pair signIn_try_answered[of sb w email password r w1]
      by (simp add: login_remote_def)
  qed
qed

lemma login_not_demo:
  "\<not> (email = ''demo@budgettracker.com'' \<and> password = ''demo1234'') \<Longrightarrow>
   login clk sb w email password = login_remote sb w email password"
  by (auto simp: login_def)

lemma login_total:
  "\<exists>r w'. login clk sb w email password = (Inr r, w') \<and> answered r"
proof (cases "email = ''demo@budgettracker.com'' \<and> password = ''demo1234''")
  case False
  then show ?thesis using login_remote_total[of sb w email password]
    by (simp add: login_not_demo[OF False])
next
  case True
  show ?thesis
  proof (cases "mock_login clk (mockUsers (invoke Mock_login w)) email password")
    case (Inl e)
    then obtain m where "exn_message e = Some m" "m \<noteq> []"
      using mock_login_Inl by blast
    then show ?thesis using True Inl
      by (simp add: login_def Let_def answered_failed)
  next
    case (Inr response)
    then have "mr_success response" using mock_login_Inr by fastforce
    then show ?thesis using True Inr
      by (simp add: login_def Let_def answered_iff)
  qed
qed

lemma login_rejected:
  assumes "signInWithPassword sb email password = Rejects e"
    and "\<not> (email = ''demo@budgettracker.com'' \<and> password = ''demo1234'')"
  shows "\<exists>w'. login clk sb w email password
           = (Inr (failed (Some (or_else (exn_message e) ''Login failed''))), w')"
  using assms(1) by (simp add: login_not_demo[OF assms(2)] login_remote_def signIn_try_def Let_def)

lemma register_catch_answered: "answered (register_catch e) \<and> \<not> success (register_catch e)"
  by (simp add: register_catch_def answered_failed or_else_nonempty already_exists_def)

lemma register_try_answered:
  "register_try h sb w name email password = (Inr r, w') \<Longrightarrow> answered r"
  by (auto simp: register_try_def Let_def answered_iff failed_def already_exists_def opt_user_def
      split: outcome.splits option.splits prod.splits if_splits)

lemma register_total:
  "\<exists>r w'. register h sb w name email password = (Inr r, w') \<and> answered r"
proof (cases "register_try h sb w name email password")
  case (Pair x w1)
  show ?thesis
  proof (cases x)
    case (Inl e)
    then show ?thesis using Pair by (simp add: register_def register_catch_answered)
  next
    case (Inr r)
    then show ?thesis using Pair register_try_answered[of h sb w name email password r w1]
      by (simp add: register_def)
  qed
qed

lemma signUp_attempt_rejected:
  "signUp sb (retryCount st) name email password = Rejects e \<Longrightarrow>
   signUp_attempt sb name email password st w
     = (Retry, st\<lparr>registrationError := Some e\<rparr>,
        invoke Auth_signUp
          (if retryCount st = 0 then invoke (Rpc ''cleanup_orphaned_profile'') w else w))"
  by (simp add: signUp_attempt_def Let_def)

lemma signUp_loop_rejected:
  "(\<forall>n. signUp sb n name email password = Rejects e) \<longrightarrow>
   registrationError (fst (signUp_loop sb name email password st w))
     = (if retryCount st \<le> maxRetries then Some e else registrationError st)"
proof (induction sb name email password st w rule: signUp_loop.induct)
  case (1 sb name email password st w)
  show ?case
  proof (intro impI)
    assume rej: "\<forall>n. signUp sb n name email password = Rejects e"
    show "registrationError (fst (signUp_loop sb name email password st w))
            = (if retryCount st \<le> maxRetries then Some e else registrationError st)"
    proof (cases "retryCount st \<le> maxRetries")
      case False
      then show ?thesis by (simp add: signUp_loop.simps)
    next
      case True
      let ?w2 = "invoke Auth_signUp
          (if retryCount st = 0 then invoke (Rpc ''cleanup_orphaned_profile'') w else w)"
      let ?st1 = "st\<lparr>registrationError := Some e\<rparr>"
      have att: "signUp_attempt sb name email password st w = (Retry, ?st1, ?w2)"
        using rej by (simp add: signUp_attempt_rejected)
      have unfold: "signUp_loop sb name email password st w
          = signUp_loop sb name email password (?st1\<lparr>retryCount := retryCount st + 1\<rparr>) ?w2"
        using True att by (subst signUp_loop.simps) simp
      have "registrationError
              (fst (signUp_loop sb name email password
                 (?st1\<lparr>retryCount := retryCount st + 1\<rparr>) ?w2)) = Some e"
        using "1.IH"[OF True att[symmetric] refl refl] rej by simp
      then show ?thesis using True unfold by simp
    qed
  qed
qed

lemma register_try_rejected:
  assumes rej: "\<forall>n. signUp sb n name email password = Rejects e"
    and run: "register_try h sb w name email password = (Inr r, w')"
  shows "\<not> success r"
proof (cases "profile_by_email sb (toLowerCase h email)")
  case (Rejects x)
  then show ?thesis using run by (simp add: register_try_def Let_def)
next
  case (Resolves existing)
  show ?thesis
  proof (cases "resp_data existing = None")
    case False
    then show ?thesis using run Resolves by (auto simp: register_try_def Let_def)
  next
    case True
    let ?w2 = "invoke (Select ''user_profiles'') (invoke (Rpc ''cleanup_orphaned_profile'') w)"
    let ?st0 = "\<lparr> retryCount = 0, registrationData = None, registrationError = None \<rparr>"
    obtain st w3 where loop: "signUp_loop sb name email password ?st0 ?w2 = (st, w3)"
      by (cases "signUp_loop sb name email password ?st0 ?w2") auto
    have "registrationError (fst (signUp_loop sb name email password ?st0 ?w2)) = Some e"
      using signUp_loop_rejected[of sb name email password e ?st0 ?w2] rej by simp
    then have err: "registrationError st = Some e" by (simp add: loop)
    show ?thesis using run Resolves True loop err
      by (auto simp: register_try_def Let_def split: option.splits if_splits)
  qed
qed

lemma register_rejected:
  assumes "\<forall>n. signUp sb n name email password = Rejects e"
  shows "\<exists>r w'. register h sb w name email password = (Inr r, w') \<and> \<not> success r"
proof (cases "register_try h sb w name email password")
  case (Pair x w1)
  show ?thesis
  proof (cases x)
    case (Inl e)
    then show ?thesis using Pair by (simp add: register_def register_catch_answered)
  next
    case (Inr r)
    then have "\<not> success r"
      using Pair register_try_rejected[OF assms] by blast
    then show ?thesis using Pair Inr by (simp add: register_def)
  qed
qed

text \<open>
  Errors that arrive in an answer. A sign-in or a sign-up that resolves with an \<open>error\<close>
  is thrown inside the \<open>try\<close> (\<open>if (error) throw error\<close>) and ends in the same
  \<open>catch\<close> as a rejected promise; the lemmas below follow each of these paths, and
  show from which answers of the backend a result with \<open>success\<close> true can come.
\<close>

lemma login_resolved_error:
  assumes "\<not> (email = ''demo@budgettracker.com'' \<and> password = ''demo1234'')"
    and "signInWithPassword sb email password = Resolves a" and "resp_error a = Some e"
  shows "login clk sb w email password
           = (Inr (failed (Some (or_else (exn_message e) ''Login failed''))),
              invoke Auth_signInWithPassword w)"
  using assms(2,3)
  by (simp add: login_not_demo[OF assms(1)] login_remote_def signIn_try_def Let_def)

lemma login_no_user:
  assumes "\<not> (email = ''demo@budgettracker.com'' \<and> password = ''demo1234'')"
    and "signInWithPassword sb email password = Resolves a" and "resp_error a = None"
    and "ad_user (resp_data a) = None \<or> ad_session (resp_data a) = None"
  shows "login clk sb w email password
           = (Inr (failed (Some ''No user data received'')), invoke Auth_signInWithPassword w)"
  using assms(2,3,4)
  by (auto simp: login_not_demo[OF assms(1)] login_remote_def signIn_try_def Let_def
      split: option.splits)

lemma login_profile_rejected:
  assumes "\<not> (email = ''demo@budgettracker.com'' \<and> password = ''demo1234'')"
    and "signInWithPassword sb email password = Resolves a" and "resp_error a = None"
    and "ad_user (resp_data a) = Some u" and "ad_session (resp_data a) = Some s"
    and "profile_by_id sb (su_id u) = Rejects e"
  shows "login clk sb w email password
           = (Inr (failed (Some (or_else (exn_message e) ''Login failed''))),
              invoke (Select ''user_profiles'') (invoke Auth_signInWithPassword w))"
  using assms(2-)
  by (simp add: login_not_demo[OF assms(1)] login_remote_def signIn_try_def Let_def)

lemma login_mock_error:
  assumes "email = ''demo@budgettracker.com'' \<and> password = ''demo1234''"
    and "mock_login clk (mockUsers w) email password = Inl e"
  shows "login clk sb w email password = (Inr (failed (exn_message e)), invoke Mock_login w)"
  using assms by (simp add: login_def Let_def invoke_def)

lemma login_success_only:
  assumes "\<not> (email = ''demo@budgettracker.com'' \<and> password = ''demo1234'')"
    and "login clk sb w email password = (Inr r, w')" and "success r"
  shows "\<exists>a u s p. signInWithPassword sb email password = Resolves a \<and> resp_error a = None
           \<and> ad_user (resp_data a) = Some u \<and> ad_session (resp_data a) = Some s
           \<and> profile_by_id sb (su_id u) = Resolves p
           \<and> token r = Some (access_token s)
           \<and> (\<exists>usr. user r = Some usr \<and> au_id usr = su_id u \<and> au_email usr = su_email u)"
  using assms(2,3)
  by (auto simp: login_not_demo[OF assms(1)] login_remote_def signIn_try_def Let_def
      split: outcome.splits option.splits prod.splits sum.splits)

lemma signUp_attempt_good:
  "signUp_attempt sb name email password st w = (s, st1, w1) \<Longrightarrow>
   registrationError st1 = None \<Longrightarrow> opt_user (registrationData st1) \<noteq> None \<Longrightarrow>
   s = Break \<and> (\<exists>a. signUp sb (retryCount st) name email password = Resolves a
                    \<and> resp_error a = None \<and> ad_user (resp_data a) \<noteq> None)"
  by (auto simp: signUp_attempt_def Let_def opt_user_def
      split: outcome.splits option.splits if_splits)

lemma signUp_loop_good:
  "signUp_loop sb name email password st w = (st', w') \<longrightarrow>
   registrationError st' = None \<longrightarrow> opt_user (registrationData st') \<noteq> None \<longrightarrow>
   st' = st \<or> (\<exists>n a. n \<le> maxRetries \<and> signUp sb n name email password = Resolves a
                    \<and> resp_error a = None \<and> ad_user (resp_data a) \<noteq> None)"
proof (induction sb name email password st w rule: signUp_loop.induct)
  case (1 sb name email password st w)
  show ?case
  proof (intro impI)
    assume run: "signUp_loop sb name email password st w = (st', w')"
      and ok: "registrationError st' = None" "opt_user (registrationData st') \<noteq> None"
    show "st' = st \<or> (\<exists>n a. n \<le> maxRetries \<and> signUp sb n name email password = Resolves a
                    \<and> resp_error a = None \<and> ad_user (resp_data a) \<noteq> None)"
    proof (cases "retryCount st \<le> maxRetries")
      case False
      then show ?thesis using run by (simp add: signUp_loop.simps)
    next
      case True
      obtain s st1 w1 where att: "signUp_attempt sb name email password st w = (s, st1, w1)"
        by (cases "signUp_attempt sb name email password st w") auto
      show ?thesis
      proof (cases s)
        case Break
        then have "st' = st1" using run True att by (subst (asm) signUp_loop.simps) simp
        then show ?thesis using signUp_attempt_good[OF att] ok True by blast
      next
        case Retry
        then have rec: "signUp_loop sb name email password
              (st1\<lparr>retryCount := retryCount st + 1\<rparr>) w1 = (st', w')"
          using run True att by (subst (asm) signUp_loop.simps) simp
        have "st' = st1\<lparr>retryCount := retryCount st + 1\<rparr>
            \<or> (\<exists>n a. n \<le> maxRetries \<and> signUp sb n name email password = Resolves a
                    \<and> resp_error a = None \<and> ad_user (resp_data a) \<noteq> None)"
          using "1.IH"[OF True att[symmetric] Retry refl] rec ok by simp
        moreover have "st' \<noteq> st1\<lparr>retryCount := retryCount st + 1\<rparr>"
        proof
          assume "st' = st1\<lparr>retryCount := retryCount st + 1\<rparr>"
          then have "registrationError st1 = None" "opt_user (registrationData st1) \<noteq> None"
            using ok by simp_all
          then have "s = Break" using signUp_attempt_good[OF att] by blast
          then show False using Retry by simp
        qed
        ultimately show ?thesis by blast
      qed
    qed
  qed
qed

lemma register_try_success_only:
  assumes run: "register_try h sb w name email password = (Inr r, w')" and "success r"
  shows "(\<exists>p. profile_by_email sb (toLowerCase h email) = Resolves p \<and> resp_data p = None)
       \<and> (\<exists>n a. n \<le> maxRetries \<and> signUp sb n name email password = Resolves a
              \<and> resp_error a = None \<and> ad_user (resp_data a) \<noteq> None)"
proof (cases "profile_by_email sb (toLowerCase h email)")
  case (Rejects x)
  then show ?thesis using run by (simp add: register_try_def Let_def)
next
  case (Resolves existing)
  show ?thesis
  proof (cases "resp_data existing = None")
    case False
    then show ?thesis using run Resolves assms(2) by (auto simp: register_try_def Let_def)
  next
    case True
    let ?w2 = "invoke (Select ''user_profiles'') (invoke (Rpc ''cleanup_orphaned_profile'') w)"
    let ?st0 = "\<lparr> retryCount = 0, registrationData = None, registrationError = None \<rparr>"
    obtain st w3 where loop: "signUp_loop sb name email password ?st0 ?w2 = (st, w3)"
      by (cases "signUp_loop sb name email password ?st0 ?w2") auto
    have ok: "registrationError st = None \<and> opt_user (registrationData st) \<noteq> None"
      using run Resolves True loop assms(2)
      by (auto simp: register_try_def Let_def failed_def split: option.splits if_splits)
    then have ne: "st \<noteq> ?st0" by (auto simp: opt_user_def)
    have "st = ?st0 \<or> (\<exists>n a. n \<le> maxRetries \<and> signUp sb n name email password = Resolves a
              \<and> resp_error a = None \<and> ad_user (resp_data a) \<noteq> None)"
      using signUp_loop_good[of sb name email password ?st0 ?w2 st w3] loop ok by simp
    then have "\<exists>n a. n \<le> maxRetries \<and> signUp sb n name email password = Resolves a
              \<and> resp_error a = None \<and> ad_user (resp_data a) \<noteq> None"
      using ne by simp
    then show ?thesis using Resolves True by blast
  qed
qed

lemma register_success_only:
  assumes "register h sb w name email password = (Inr r, w')" and "success r"
  shows "(\<exists>p. profile_by_email sb (toLowerCase h email) = Resolves p \<and> resp_data p = None)
       \<and> (\<exists>n a. n \<le> maxRetries \<and> signUp sb n name email password = Resolves a
              \<and> resp_error a = None \<and> ad_user (resp_data a) \<noteq> None)"
proof (cases "register_try h sb w name email password")
  case (Pair x w1)
  show ?thesis
  proof (cases x)
    case (Inl e)
    then show ?thesis using Pair assms register_catch_answered[of e]
      by (auto simp: register_def)
  next
    case (Inr r1)
    then have "register_try h sb w name email password = (Inr r, w')"
      using Pair assms(1) by (simp add: register_def)
    then show ?thesis using assms(2) by (rule register_try_success_only)
  qed
qed

lemma register_all_fail:
  assumes "\<forall>n. n \<le> maxRetries \<longrightarrow> attempt_fails (signUp sb n name email password)"
    and "register h sb w name email password = (Inr r, w')"
  shows "\<not> success r"
proof
  assume "success r"
  from register_success_only[OF assms(2) this]
  obtain n a where "n \<le> maxRetries" "signUp sb n name email password = Resolves a"
    "resp_error a = None" by blast
  then show False using assms(1) by (auto simp: attempt_fails_def)
qed

lemma register_lookup_rejected:
  assumes "profile_by_email sb (toLowerCase h email) = Rejects e"
  shows "register h sb w name email password
     = (Inr (register_catch e),
        invoke (Select ''user_profiles'') (invoke (Rpc ''cleanup_orphaned_profile'') w))"
  using assms by (simp add: register_def register_try_def Let_def)

lemma register_already_registered:
  assumes "profile_by_email sb (toLowerCase h email) = Resolves p" and "resp_data p = None"
    and "signUp sb 0 name email password = Resolves a" and "resp_error a = Some e"
    and "exn_message e = Some m" and "str_includes m ''User already registered''"
  shows "\<exists>w'. register h sb w name email password = (Inr (failed (Some already_exists)), w')"
  using assms
  by (simp add: register_def register_try_def Let_def signUp_loop.simps signUp_attempt_def
      maxRetries_def)

text \<open>
  Claim C5. For every input and every behaviour of the hosted backend and of the mock
  store, \<open>login\<close> and \<open>register\<close> of the authentication service return a result: no
  exception reaches the caller, and a result that does not report success holds an error
  message that is not empty. Every error raised on the way becomes a result with
  \<open>success\<close> false and a message:
  \<^item> a sign-in whose promise is rejected (a network error), a sign-in that resolves with an
    error (refused credentials), and a rejected lookup of the profile give the message of
    the error, or \<open>Login failed\<close> when it has none; a sign-in that resolves without a
    user or a session gives \<open>No user data received\<close>; an error of the mock store on
    the demo pair gives its message;
  \<^item> \<open>login\<close> reports success, for credentials other than the demo pair, only when the
    sign-in resolved without an error, with a user and a session, and the lookup of the
    profile resolved;
  \<^item> \<open>register\<close> reports success only when the lookup by email resolved without a
    profile and one of the sign-up attempts resolved without an error and with a user; so
    a registration whose attempts are all rejected, or all fail (rejected or resolved
    with an error), ends in a result with \<open>success\<close> false; a rejected lookup by email
    gives the result of the \<open>catch\<close>, and a first attempt answered with
    \<open>User already registered\<close> gives the message that the account exists.
\<close>

theorem no_exception_escapes:
  "(\<exists>r w'. login clk sb w email password = (Inr r, w')
       \<and> (success r \<or> (\<exists>m. error r = Some m \<and> m \<noteq> [])))
   \<and> (\<exists>r w'. register h sb w name email password = (Inr r, w')
       \<and> (success r \<or> (\<exists>m. error r = Some m \<and> m \<noteq> [])))
   \<and> (signInWithPassword sb email password = Rejects e
        \<and> \<not> (email = ''demo@budgettracker.com'' \<and> password = ''demo1234'') \<longrightarrow>
       (\<exists>w'. login clk sb w email password
          = (Inr (failed (Some (or_else (exn_message e) ''Login failed''))), w')))
   \<and> ((\<forall>n. signUp sb n name email password = Rejects e) \<longrightarrow>
       (\<exists>r w'. register h sb w name email password = (Inr r, w') \<and> \<not> success r))
   \<and> (\<not> (email = ''demo@budgettracker.com'' \<and> password = ''demo1234'')
        \<and> signInWithPassword sb email password = Resolves a \<and> resp_error a = Some e1 \<longrightarrow>
       login clk sb w email password
         = (Inr (failed (Some (or_else (exn_message e1) ''Login failed''))),
            invoke Auth_signInWithPassword w))
   \<and> (\<not> (email = ''demo@budgettracker.com'' \<and> password = ''demo1234'')
        \<and> signInWithPassword sb email password = Resolves a \<and> resp_error a = None
        \<and> (ad_user (resp_data a) = None \<or> ad_session (resp_data a) = None) \<longrightarrow>
       login clk sb w email password
         = (Inr (failed (Some ''No user data received'')), invoke Auth_signInWithPassword w))
   \<and> (\<not> (email = ''demo@budgettracker.com'' \<and> password = ''demo1234'')
        \<and> signInWithPassword sb email password = Resolves a \<and> resp_error a = None
        \<and> ad_user (resp_data a) = Some u \<and> ad_session (resp_data a) = Some s
        \<and> profile_by_id sb (su_id u) = Rejects e2 \<longrightarrow>
       login clk sb w email password
         = (Inr (failed (Some (or_else (exn_message e2) ''Login failed''))),
            invoke (Select ''user_profiles'') (invoke Auth_signInWithPassword w)))
   \<and> (email = ''demo@budgettracker.com'' \<and> password = ''demo1234''
        \<and> mock_login clk (mockUsers w) email password = Inl e3 \<longrightarrow>
       login clk sb w email password = (Inr (failed (exn_message e3)), invoke Mock_login w))
   \<and> (\<not> (email = ''demo@budgettracker.com'' \<and> password = ''demo1234'')
        \<and> login clk sb w email password = (Inr r1, w1) \<and> success r1 \<longrightarrow>
       (\<exists>a u s p. signInWithPassword sb email password = Resolves a \<and> resp_error a = None
          \<and> ad_user (resp_data a) = Some u \<and> ad_session (resp_data a) = Some s
          \<and> profile_by_id sb (su_id u) = Resolves p
          \<and> token r1 = Some (access_token s)
          \<and> (\<exists>usr. user r1 = Some usr \<and> au_id usr = su_id u \<and> au_email usr = su_email u)))
   \<and> (register h sb w name email password = (Inr r2, w2) \<and> success r2 \<longrightarrow>
       (\<exists>p. profile_by_email sb (toLowerCase h email) = Resolves p \<and> resp_data p = None)
       \<and> (\<exists>n a. n \<le> maxRetries \<and> signUp sb n name email password = Resolves a
              \<and> resp_error a = None \<and> ad_user (resp_data a) \<noteq> None))
   \<and> ((\<forall>n. n \<le> maxRetries \<longrightarrow> attempt_fails (signUp sb n name email password))
        \<and> register h sb w name email password = (Inr r3, w3) \<longrightarrow>
       \<not> success r3)
   \<and> (profile_by_email sb (toLowerCase h email) = Rejects e4 \<longrightarrow>
       register h sb w name email password
         = (Inr (register_catch e4),
            invoke (Select ''user_profiles'') (invoke (Rpc ''cleanup_orphaned_profile'') w))
       \<and> \<not> success (register_catch e4))
   \<and> (profile_by_email sb (toLowerCase h email) = Resolves p5 \<and> resp_data p5 = None
        \<and> signUp sb 0 name email password = Resolves a5 \<and> resp_error a5 = Some e5
        \<and> exn_message e5 = Some m5 \<and> str_includes m5 ''User already registered'' \<longrightarrow>
       (\<exists>w'. register h sb w name email password = (Inr (failed (Some already_exists)), w')))"
proof (intro conjI impI)
  show "\<exists>r w'. login clk sb w email password = (Inr r, w')
       \<and> (success r \<or> (\<exists>m. error r = Some m \<and> m \<noteq> []))"
    using login_total [of clk sb w email password] unfolding answered_iff .
  show "\<exists>r w'. register h sb w name email password = (Inr r, w')
       \<and> (success r \<or> (\<exists>m. error r = Some m \<and> m \<noteq> []))"
    using register_total [of h sb w name email password] unfolding answered_iff .
next
  assume "signInWithPassword sb email password = Rejects e
        \<and> \<not> (email = ''demo@budgettracker.com'' \<and> password = ''demo1234'')"
  then show "\<exists>w'. login clk sb w email password
          = (Inr (failed (Some (or_else (exn_message e) ''Login failed''))), w')"
    using login_rejected by blast
next
  assume "\<forall>n. signUp sb n name email password = Rejects e"
  then show "\<exists>r w'. register h sb w name email password = (Inr r, w') \<and> \<not> success r"
    by (rule register_rejected)
next
  assume "\<not> (email = ''demo@budgettracker.com'' \<and> password = ''demo1234'')
        \<and> signInWithPassword sb email password = Resolves a \<and> resp_error a = Some e1"
  then show "login clk sb w email password
         = (Inr (failed (Some (or_else (exn_message e1) ''Login failed''))),
            invoke Auth_signInWithPassword w)"
    using login_resolved_error by blast
next
  assume "\<not> (email = ''demo@budgettracker.com'' \<and> password = ''demo1234'')
        \<and> signInWithPassword sb email password = Resolves a \<and> resp_error a = None
        \<and> (ad_user (resp_data a) = None \<or> ad_session (resp_data a) = None)"
  then show "login clk sb w email password
         = (Inr (failed (Some ''No user data received'')), invoke Auth_signInWithPassword w)"
    using login_no_user by blast
next
  assume "\<not> (email = ''demo@budgettracker.com'' \<and> password = ''demo1234'')
        \<and> signInWithPassword sb email password = Resolves a \<and> resp_error a = None
        \<and> ad_user (resp_data a) = Some u \<and> ad_session (resp_data a) = Some s
        \<and> profile_by_id sb (su_id u) = Rejects e2"
  then show "login clk sb w email password
         = (Inr (failed (Some (or_else (exn_message e2) ''Login failed''))),
            invoke (Select ''user_profiles'') (invoke Auth_signInWithPassword w))"
    using login_profile_rejected by blast
next
  assume "email = ''demo@budgettracker.com'' \<and> password = ''demo1234''
        \<and> mock_login clk (mockUsers w) email password = Inl e3"
  then show "login clk sb w email password
      = (Inr (failed (exn_message e3)), invoke Mock_login w)"
    using login_mock_error by blast
next
  assume "\<not> (email = ''demo@budgettracker.com'' \<and> password = ''demo1234'')
        \<and> login clk sb w email password = (Inr r1, w1) \<and> success r1"
  then show "\<exists>a u s p. signInWithPassword sb email password = Resolves a \<and> resp_error a = None
          \<and> ad_user (resp_data a) = Some u \<and> ad_session (resp_data a) = Some s
          \<and> profile_by_id sb (su_id u) = Resolves p
          \<and> token r1 = Some (access_token s)
          \<and> (\<exists>usr. user r1 = Some usr \<and> au_id usr = su_id u \<and> au_email usr = su_email u)"
    using login_success_only by blast
next
  assume ok: "register h sb w name email password = (Inr r2, w2) \<and> success r2"
  then have both:
    "(\<exists>p. profile_by_email sb (toLowerCase h email) = Resolves p \<and> resp_data p = None)
     \<and> (\<exists>n a. n \<le> maxRetries \<and> signUp sb n name email password = Resolves a
            \<and> resp_error a = None \<and> ad_user (resp_data a) \<noteq> None)"
    using register_success_only by blast
  show "\<exists>p. profile_by_email sb (toLowerCase h email) = Resolves p \<and> resp_data p = None"
    using both by blast
  show "\<exists>n a. n \<le> maxRetries \<and> signUp sb n name email password = Resolves a
            \<and> resp_error a = None \<and> ad_user (resp_data a) \<noteq> None"
    using both by blast
next
  assume "(\<forall>n. n \<le> maxRetries \<longrightarrow> attempt_fails (signUp sb n name email password))
        \<and> register h sb w name email password = (Inr r3, w3)"
  then show "\<not> success r3"
    using register_all_fail by blast
next
  assume rej: "profile_by_email sb (toLowerCase h email) = Rejects e4"
  show "register h sb w name email password
         = (Inr (register_catch e4),
            invoke (Select ''user_profiles'') (invoke (Rpc ''cleanup_orphaned_profile'') w))"
    using rej by (rule register_lookup_rejected)
  show "\<not> success (register_catch e4)"
    using register_catch_answered by blast
next
  assume "profile_by_email sb (toLowerCase h email) = Resolves p5 \<and> resp_data p5 = None
        \<and> signUp sb 0 name email password = Resolves a5 \<and> resp_error a5 = Some e5
        \<and> exn_message e5 = Some m5 \<and> str_includes m5 ''User already registered''"
  then show "\<exists>w'. register h sb w name email password
      = (Inr (failed (Some already_exists)), w')"
    using register_already_registered by blast
qed

theorem no_exception_escapes_witness:
  "(\<exists>w'. login sample_clock offline fresh ''asha@example.com'' ''s3cretpass''
       = (Inr (failed (Some ''Failed to fetch'')), w'))
   \<and> (\<exists>r w'. register utc_host offline fresh ''Asha'' ''asha@example.com'' ''s3cretpass''
          = (Inr r, w')
       \<and> \<not> success r)
   \<and> login sample_clock online fresh ''asha@example.com'' ''wrongpass1''
       = (Inr (failed (Some ''Invalid login credentials'')), invoke Auth_signInWithPassword fresh)
   \<and> login sample_clock online (fresh\<lparr>mockUsers := Map.empty\<rparr>)
         ''demo@budgettracker.com'' ''demo1234''
       = (Inr (failed (Some ''Invalid credentials'')),
          invoke Mock_login (fresh\<lparr>mockUsers := Map.empty\<rparr>))
   \<and> (\<exists>w'. register utc_host signup_refused fresh ''Asha'' ''asha@example.com'' ''s3cretpass''
          = (Inr (failed (Some already_exists)), w'))"
proof -
  have a: "signInWithPassword offline ''asha@example.com'' ''s3cretpass''
      = Rejects (Error ''Failed to fetch'')"
    by (simp add: offline_def)
  have b: "\<forall>n. signUp offline n ''Asha'' ''asha@example.com'' ''s3cretpass''
      = Rejects (Error ''Failed to fetch'')"
    by (simp add: offline_def)
  have c: "or_else (exn_message (Error ''Failed to fetch'')) ''Login failed'' = ''Failed to fetch''"
    by (simp add: or_else_def Error_def)
  have first: "(\<exists>w'. login sample_clock offline fresh ''asha@example.com'' ''s3cretpass''
         = (Inr (failed (Some ''Failed to fetch'')), w'))
     \<and> (\<exists>r w'. register utc_host offline fresh ''Asha'' ''asha@example.com'' ''s3cretpass''
            = (Inr r, w') \<and> \<not> success r)"
    using no_exception_escapes [where clk = sample_clock and sb = offline and w = fresh
      and email = "''asha@example.com''" and password = "''s3cretpass''"
      and name = "''Asha''" and e = "Error ''Failed to fetch''" and h = utc_host] a b c
    by simp
  let ?refused = "\<lparr> resp_data = \<lparr> ad_user = None, ad_session = None \<rparr>,
                     resp_error = Some (Error ''Invalid login credentials'') \<rparr>"
  have d: "signInWithPassword online ''asha@example.com'' ''wrongpass1'' = Resolves ?refused"
    by (simp add: online_def)
  have d': "or_else (exn_message (Error ''Invalid login credentials'')) ''Login failed''
      = ''Invalid login credentials''"
    by (simp add: or_else_def Error_def)
  have second: "login sample_clock online fresh ''asha@example.com'' ''wrongpass1''
       = (Inr (failed (Some ''Invalid login credentials'')), invoke Auth_signInWithPassword fresh)"
    using no_exception_escapes [where clk = sample_clock and sb = online and w = fresh
      and email = "''asha@example.com''" and password = "''wrongpass1''"
      and a = ?refused and ?e1.0 = "Error ''Invalid login credentials''"] d d'
    by simp
  let ?w = "fresh\<lparr>mockUsers := Map.empty\<rparr>"
  have m: "mock_login sample_clock (mockUsers ?w) ''demo@budgettracker.com'' ''demo1234''
      = Inl (Error ''Invalid credentials'')"
    by (simp add: mock_login_def)
  have third: "login sample_clock online ?w ''demo@budgettracker.com'' ''demo1234''
       = (Inr (failed (Some ''Invalid credentials'')), invoke Mock_login ?w)"
    using no_exception_escapes [where clk = sample_clock and sb = online and w = ?w
      and email = "''demo@budgettracker.com''" and password = "''demo1234''"
      and ?e3.0 = "Error ''Invalid credentials''"] m
    by (simp add: Error_def)
  let ?known = "\<lparr> resp_data = \<lparr> ad_user = None, ad_session = None \<rparr>,
                   resp_error = Some (Error ''User already registered'') \<rparr>"
  have p: "profile_by_email signup_refused (toLowerCase utc_host ''asha@example.com'')
      = Resolves \<lparr> resp_data = None, resp_error = None \<rparr>"
    by (simp add: signup_refused_def online_def)
  have q: "signUp signup_refused 0 ''Asha'' ''asha@example.com'' ''s3cretpass'' = Resolves ?known"
    by (simp add: signup_refused_def)
  have i: "str_includes ''User already registered'' ''User already registered''"
    by simp
  have fourth: "\<exists>w'. register utc_host signup_refused fresh ''Asha'' ''asha@example.com''
      ''s3cretpass'' = (Inr (failed (Some already_exists)), w')"
    using no_exception_escapes [where h = utc_host and sb = signup_refused and w = fresh
      and name = "''Asha''" and email = "''asha@example.com''" and password = "''s3cretpass''"
      and ?p5.0 = "\<lparr> resp_data = None, resp_error = None \<rparr>" and ?a5.0 = ?known
      and ?e5.0 = "Error ''User already registered''"
      and ?m5.0 = "''User already registered''"] p q i
    by (simp add: Error_def)
  show ?thesis using first second third fourth by blast
qed


text \<open>
  Two runs of \<open>register\<close>. When every sign-up is rejected, the loop makes its four
  attempts and the error of the last one is returned; when the backend signs the user up
  with a session, the profile is looked up once and the credentials are saved.
\<close>

lemma register_retries:
  "register utc_host signup_down fresh ''Asha'' ''asha@example.com'' ''s3cretpass''
     = (Inr (failed (Some ''Failed to fetch'')),
        fresh\<lparr>calls := [Rpc ''cleanup_orphaned_profile'', Select ''user_profiles'',
                         Rpc ''cleanup_orphaned_profile'', Auth_signUp, Auth_signUp,
                         Auth_signUp, Auth_signUp]\<rparr>)"
  by (simp add: register_def register_try_def signUp_loop.simps signUp_attempt_def
      signup_down_def online_def fresh_def invoke_def maxRetries_def Let_def Error_def
      register_catch_def or_else_def)

lemma register_online:
  "\<exists>w'. register utc_host online fresh ''Asha'' ''asha@example.com'' ''s3cretpass''
     = (Inr \<lparr> success = True,
              user = Some \<lparr> au_id = ''7f3c'', au_email = ''asha@example.com'',
                            au_name = Some ''Asha'', au_full_name = Some ''Asha'' \<rparr>,
              token = Some ''tok-2'', error = None, needsEmailConfirmation = None \<rparr>, w')
     \<and> calls w' = [Rpc ''cleanup_orphaned_profile'', Select ''user_profiles'',
                    Rpc ''cleanup_orphaned_profile'', Auth_signUp, Select ''user_profiles'']
     \<and> localStorage w' ''token'' = Some (Text ''tok-2'')"
  by (simp add: register_def register_try_def signUp_loop.simps signUp_attempt_def
      profile_checks.simps opt_user_def saveUserCredentials_def setItem_def
      online_def asha_def fresh_def invoke_def maxRetries_def maxProfileChecks_def Let_def)

section \<open>Registration with a short password\<close>

text \<open>
  Claim C4, as the specification states it, fails when an earlier check of the form
  answers first: a password of five characters whose confirmation differs is refused with
  \<open>Passwords do not match\<close>, not with the message about the length.
\<close>

theorem mismatch_reported_first:
  "length (fd_password mismatched) < 8
   \<and> pg_error (fst (handleSubmit utc_host online mismatched blank fresh)) = ''Passwords do not match''"
  by (simp add: handleSubmit_def mismatched_def blank_def Let_def)

text \<open>
  Claim C4, amended. A submission of the sign-up form whose password has fewer than 8
  characters ends in a validation error before any call is made: the stores and the log
  of calls are as they were, the page did not navigate, and the message is
  \<open>Password must be at least 8 characters\<close> when the four fields are filled and the
  confirmation equals the password (\<open>Please fill all fields\<close> or
  \<open>Passwords do not match\<close> otherwise). \<open>register\<close> of the mock store throws for such a
  password and leaves its map as it was: \<open>Password must be at least 8 characters\<close> when
  name, email and password are not empty, \<open>All fields are required\<close> otherwise.
\<close>

theorem short_password_stops_locally:
  "(length (fd_password fd) < 8 \<longrightarrow>
      snd (handleSubmit h sb fd pg w) = w
      \<and> \<not> pg_loading (fst (handleSubmit h sb fd pg w))
      \<and> pg_navigated (fst (handleSubmit h sb fd pg w)) = pg_navigated pg
      \<and> pg_error (fst (handleSubmit h sb fd pg w))
          = (if fd_name fd = [] \<or> fd_email fd = [] \<or> fd_password fd = []
                \<or> fd_confirmPassword fd = []
             then ''Please fill all fields''
             else if fd_password fd \<noteq> fd_confirmPassword fd then ''Passwords do not match''
             else ''Password must be at least 8 characters''))
   \<and> (length password < 8 \<longrightarrow>
      mock_register clk us name email password
        = (Inl (Error (if name = [] \<or> email = [] \<or> password = []
                       then ''All fields are required''
                       else ''Password must be at least 8 characters'')), us))"
  by (simp add: handleSubmit_def mock_register_def Let_def)

theorem short_password_stops_locally_witness:
  "snd (handleSubmit utc_host online seven blank fresh) = fresh
   \<and> calls (snd (handleSubmit utc_host online seven blank fresh)) = []
   \<and> pg_error (fst (handleSubmit utc_host online seven blank fresh))
       = ''Password must be at least 8 characters''
   \<and> mock_register sample_clock initial_users ''Asha'' ''asha@example.com'' ''1234567''
       = (Inl (Error ''Password must be at least 8 characters''), initial_users)"
proof -
  have a: "length (fd_password seven) < 8" by (simp add: seven_def)
  have b: "length ''1234567'' < 8" by simp
  have c: "calls fresh = []" by (simp add: fresh_def)
  from short_password_stops_locally
    [where fd = seven and h = utc_host and sb = online and pg = blank and w = fresh
       and password = "''1234567''" and clk = sample_clock and us = initial_users
       and name = "''Asha''" and email = "''asha@example.com''"] a b c
  show ?thesis by (simp add: seven_def)
qed

text \<open>
  The check of the length is the page's and the mock store's: \<open>register\<close> of the
  authentication service, called with a password of seven characters, goes to the backend.
\<close>

lemma register_does_not_validate:
  "calls (snd (register utc_host offline fresh ''Asha'' ''asha@example.com'' ''1234567''))
     = [Rpc ''cleanup_orphaned_profile'', Select ''user_profiles'']"
  by (simp add: register_def register_try_def offline_def fresh_def Let_def invoke_def)


section \<open>Creating a category\<close>

lemma find_None_iff_all: "find P xs = None \<longleftrightarrow> (\<forall>x \<in> set xs. \<not> P x)"
  by (induction xs) auto

lemma find_same_category:
  "(\<exists>c \<in> set cs. same_category h new c) \<Longrightarrow> \<exists>c. find (same_category h new) cs = Some c"
  by (cases "find (same_category h new) cs") (auto simp: find_None_iff_all)

lemma stored_categories_read:
  "stored_categories ls = Some cs \<Longrightarrow>
   (if falsy (ls ''categories'') then Inr [] else parse_categories (ls ''categories'')) = Inr cs"
  by (auto simp: stored_categories_def split: if_splits sum.splits)

lemma stored_categories_written [simp]:
  "stored_categories (ls(''categories'' \<mapsto> CategoryList cs)) = Some cs"
  by (simp add: stored_categories_def falsy_def parse_categories_def)

lemma createCategory_duplicate:
  assumes "stored_categories ls = Some cs"
    and "\<exists>c \<in> set cs. same_category h new c"
  shows "createCategory backend h clk ls new = (Inr (Failure ''Category already exists''), ls)"
proof -
  obtain c where "find (same_category h new) cs = Some c"
    using assms(2) find_same_category by blast
  then show ?thesis using stored_categories_read[OF assms(1)]
    by (simp add: createCategory_def USE_MOCK_AUTH_def)
qed

lemma createCategory_fresh:
  assumes "stored_categories ls = Some cs"
    and "\<forall>c \<in> set cs. \<not> same_category h new c"
  shows "\<exists>c. createCategory backend h clk ls new
           = (Inr (Success c), ls(''categories'' \<mapsto> CategoryList (cs @ [c])))
         \<and> c_name c = ci_name new \<and> c_type c = ci_type new"
proof -
  have "find (same_category h new) cs = None"
    using assms(2) by (simp add: find_None_iff_all)
  then show ?thesis using stored_categories_read[OF assms(1)]
    by (simp add: createCategory_def USE_MOCK_AUTH_def Let_def)
qed

lemma unique_snoc:
  assumes "unique_categories h cs" and "\<forall>c \<in> set cs. \<not> same_category h new c"
    and "c_name c = ci_name new" and "c_type c = ci_type new"
  shows "unique_categories h (cs @ [c])"
  using assms by (auto simp: unique_categories_def category_key_def same_category_def)

text \<open>
  Claim C8. Let the local store hold a list of categories (or no list, which counts as the
  empty one). Names are compared as the code compares them, through the host's
  \<open>String.prototype.toLowerCase\<close>, whatever letters they hold. If the list has a category
  with the type of the new one and the same name up to case, \<open>createCategory\<close> returns
  \<open>{ success: false, error: 'Category already exists' }\<close> and the store is unchanged. If
  it has none, the call succeeds and appends one category, with the name and the type
  asked for. And if no two categories of the list agree in type and in name up to case,
  the same holds of the list in the store after the call: \<open>createCategory\<close> preserves
  the uniqueness of the pairs of name and type.
\<close>

theorem createCategory_keeps_unique:
  assumes "stored_categories ls = Some cs"
  shows "((\<exists>c \<in> set cs. same_category h new c) \<longrightarrow>
            createCategory backend h clk ls new
              = (Inr (Failure ''Category already exists''), ls))
       \<and> ((\<forall>c \<in> set cs. \<not> same_category h new c) \<longrightarrow>
            (\<exists>c. createCategory backend h clk ls new
                   = (Inr (Success c), ls(''categories'' \<mapsto> CategoryList (cs @ [c])))
               \<and> c_name c = ci_name new \<and> c_type c = ci_type new))
       \<and> (unique_categories h cs \<longrightarrow>
            (\<exists>cs'. stored_categories (snd (createCategory backend h clk ls new)) = Some cs'
               \<and> unique_categories h cs'))"
proof (cases "\<exists>c \<in> set cs. same_category h new c")
  case True
  then show ?thesis using createCategory_duplicate[OF assms True] assms by auto
next
  case False
  then have f: "\<forall>c \<in> set cs. \<not> same_category h new c" by blast
  from createCategory_fresh[OF assms f]
  obtain c where c: "createCategory backend h clk ls new
           = (Inr (Success c), ls(''categories'' \<mapsto> CategoryList (cs @ [c])))"
         "c_name c = ci_name new" "c_type c = ci_type new" by blast
  show ?thesis using False c unique_snoc[OF _ f c(2) c(3)] by simp
qed

theorem createCategory_keeps_unique_witness:
  "createCategory unreachable utc_host sample_clock pantry food_again
     = (Inr (Failure ''Category already exists''), pantry)
   \<and> unique_categories utc_host [food, salary]
   \<and> (\<exists>c. createCategory unreachable utc_host sample_clock pantry travel
            = (Inr (Success c), pantry(''categories'' \<mapsto> CategoryList [food, salary, c]))
          \<and> c_name c = ''Travel'' \<and> c_type c = Expense
          \<and> unique_categories utc_host [food, salary, c])"
proof -
  have s: "stored_categories pantry = Some [food, salary]"
    by (simp add: stored_categories_def pantry_def falsy_def parse_categories_def)
  have d: "\<exists>c \<in> set [food, salary]. same_category utc_host food_again c"
    by (simp add: same_category_def food_def food_again_def utc_host_def ascii_lower_char_def)
  have u: "unique_categories utc_host [food, salary]"
    by (simp add: unique_categories_def category_key_def food_def salary_def utc_host_def
        ascii_lower_char_def)
  have n: "\<forall>c \<in> set [food, salary]. \<not> same_category utc_host travel c"
    by (simp add: same_category_def food_def salary_def travel_def utc_host_def
        ascii_lower_char_def)
  have t: "ci_name travel = ''Travel''" "ci_type travel = Expense"
    by (simp_all add: travel_def)
  from createCategory_keeps_unique
    [OF s, where new = food_again and backend = unreachable and clk = sample_clock
       and h = utc_host] d
  have first: "createCategory unreachable utc_host sample_clock pantry food_again
     = (Inr (Failure ''Category already exists''), pantry)"
    by blast
  from createCategory_keeps_unique
    [OF s, where new = travel and backend = unreachable and clk = sample_clock
       and h = utc_host] n u
  obtain c cs' where c: "createCategory unreachable utc_host sample_clock pantry travel
            = (Inr (Success c), pantry(''categories'' \<mapsto> CategoryList ([food, salary] @ [c])))"
      "c_name c = ci_name travel" "c_type c = ci_type travel"
      "stored_categories (snd (createCategory unreachable utc_host sample_clock pantry travel))
         = Some cs'" "unique_categories utc_host cs'"
    by blast
  have "cs' = [food, salary, c]" using c(1) c(4) by simp
  then show ?thesis using first u c t by auto
qed


text \<open>
  The comparison is the host's on every name: two names the host lowers to the same string
  are the same name, with letters beyond A to Z as with these.
\<close>

lemma createCategory_same_lowered:
  assumes "ls ''categories'' = Some (CategoryList cs)" and "c \<in> set cs"
    and "toLowerCase h (c_name c) = toLowerCase h (ci_name new)" and "c_type c = ci_type new"
  shows "createCategory backend h clk ls new = (Inr (Failure ''Category already exists''), ls)"
proof -
  have "stored_categories ls = Some cs"
    using assms(1) by (simp add: stored_categories_def falsy_def parse_categories_def)
  moreover have "\<exists>c \<in> set cs. same_category h new c"
    using assms(2,3,4) by (auto simp: same_category_def)
  ultimately show ?thesis by (rule createCategory_duplicate)
qed


section \<open>Deleting a category\<close>

text \<open>
  What \<open>deleteCategory\<close> does when the category is found and transactions are stored:
  the category leaves the list of categories, and the list of transactions is written
  back without the transactions whose \<open>category\<close> is the name of the deleted category.
\<close>

lemma deleteCategory_found:
  assumes "ls ''categories'' = Some (CategoryList cs)"
    and "find (\<lambda>c. c__id c = ident) cs = Some c"
    and "ls ''transactions'' = Some (TransactionList ts)"
  shows "deleteCategory backend ls ident
     = (Inr (Success ()),
        ls(''categories'' \<mapsto> CategoryList (filter (\<lambda>c. c__id c \<noteq> ident) cs),
           ''transactions'' \<mapsto>
             TransactionList (filter (\<lambda>t. t_category t \<noteq> c_name c) ts)))"
  using assms
  by (simp add: deleteCategory_def USE_MOCK_AUTH_def falsy_def parse_categories_def
      parse_transactions_def Let_def)

text \<open>
  Claim C1 says that deleting a category detaches the transactions that refer to it: they
  stay in the list, without a category, their amount and date unchanged. The function as
  written does otherwise. With the categories \<open>Food\<close> (\<open>cat-1\<close>) and \<open>Income\<close> and
  the two sample transactions stored, deleting \<open>cat-1\<close> succeeds, removes \<open>Food\<close> from
  the categories, and leaves a list of transactions in which the \<open>Food\<close> transaction is
  no longer present.
\<close>

theorem deleteCategory_deletes_transactions:
  "deleteCategory unreachable ledger ''cat-1''
     = (Inr (Success ()),
        ledger(''categories'' \<mapsto> CategoryList [salary],
               ''transactions'' \<mapsto> TransactionList [paycheck]))"
  by (simp add: deleteCategory_def USE_MOCK_AUTH_def ledger_def falsy_def parse_categories_def
      parse_transactions_def food_def salary_def groceries_def paycheck_def Let_def)


section \<open>The transactions of a month\<close>

lemma fold_add_to_totals:
  "fold add_to_totals ts tot
     = \<lparr> acc_income =
           acc_income tot + sum_list (map t_amount (filter (\<lambda>t. t_type t = Income) ts)),
         acc_expense =
           acc_expense tot + sum_list (map t_amount (filter (\<lambda>t. t_type t \<noteq> Income) ts)) \<rparr>"
  by (induction ts arbitrary: tot) (simp_all add: add_to_totals_def)

text \<open>
  What \<open>getMonthlyTransactions\<close> returns for a stored list: the transactions whose date
  lies between the two bounds, in their order, and the sums over them. The income is the
  sum of the amounts of the kept transactions of type \<open>income\<close>, the expense the sum of
  the amounts of the other kept transactions, the balance their difference. The function
  writes nothing. (Amounts are real numbers here, not floating-point numbers.)
\<close>

lemma getMonthlyTransactions_result:
  assumes "ls ''transactions'' = Some (TransactionList ts)"
  shows "\<exists>kept.
     kept = filter (in_range h (new_Date h year (month - 1) 1) (new_Date h year month 0)) ts
     \<and> getMonthlyTransactions backend h ls year month
        = Inr (Success
            \<lparr> transactions = kept,
              summary =
                \<lparr> income = sum_list (map t_amount (filter (\<lambda>t. t_type t = Income) kept)),
                  expense = sum_list (map t_amount (filter (\<lambda>t. t_type t \<noteq> Income) kept)),
                  balance =
                    sum_list (map t_amount (filter (\<lambda>t. t_type t = Income) kept))
                    - sum_list (map t_amount (filter (\<lambda>t. t_type t \<noteq> Income) kept)) \<rparr> \<rparr>)"
  using assms
  by (simp add: getMonthlyTransactions_def USE_MOCK_AUTH_def falsy_def parse_transactions_def
      Let_def fold_add_to_totals)

text \<open>
  The bounds for January 2024 on a host in UTC: the first instant of the 1st, and the
  first instant of the 31st.
\<close>

lemma january_2024:
  "new_Date utc_host 2024 0 1 = Some 1704067200000
   \<and> new_Date utc_host 2024 1 0 = Some 1706659200000"
  by (simp add: new_Date_def MakeDay_def days_from_civil_def TimeClip_def utc_host_def
      msPerDay_def Let_def)

lemma groceries_out:
  "\<not> in_range utc_host (Some 1704067200000) (Some 1706659200000) groceries"
  by (simp add: in_range_def utc_host_def groceries_def date_ge_def date_le_def)

lemma paycheck_in:
  "in_range utc_host (Some 1704067200000) (Some 1706659200000) paycheck"
  by (simp add: in_range_def utc_host_def paycheck_def date_ge_def date_le_def)

text \<open>
  Claim C9 says that \<open>getMonthlyTransactions\<close> returns the transactions whose date falls
  within the month, with the sums over them. The sums are as the claim says (lemma
  \<open>getMonthlyTransactions_result\<close>), the selection is not: the upper bound is the first
  instant of the last day of the month, so a transaction later on that day is left out.
  For January 2024 the expense dated 2024-01-31T12:00:00.000Z is neither in the list
  returned nor in the sums.
\<close>

theorem getMonthlyTransactions_misses_last_day:
  "getMonthlyTransactions unreachable_monthly utc_host ledger 2024 1
     = Inr (Success \<lparr> transactions = [paycheck],
                       summary = \<lparr> income = 1000, expense = 0, balance = 1000 \<rparr> \<rparr>)"
proof -
  have t: "t_type paycheck = Income" "t_amount paycheck = 1000"
    by (simp_all add: paycheck_def)
  show ?thesis
    by (simp add: getMonthlyTransactions_def USE_MOCK_AUTH_def ledger_def falsy_def
        parse_transactions_def january_2024 groceries_out paycheck_in add_to_totals_def t
        Let_def)
qed

end
